theory Spec2Isabelle
  imports Complex_Main "HOL-Library.AList"
begin

section \<open>Python values handled by app.py\<close>

text \<open>
  The provider client (pytelematics_oasa) hands back parsed JSON. A value is therefore
  \<open>None\<close>, a boolean, a number, a string, a list or a dictionary with string keys.
  A dictionary is an association list in insertion order, as Python keeps it;
  \<open>AList.update\<close> is Python's item assignment (an existing key keeps its place, a new
  key goes to the end). Floats are idealised as reals.
\<close>

datatype pyval =
    VNone
  | VBool bool
  | VInt int
  | VFloat real
  | VStr string
  | VList "pyval list"
  | VDict "(string \<times> pyval) list"

text \<open>
  The exceptions the modelled fragment can meet. All of them are subclasses of
  \<open>Exception\<close>, so every \<open>except Exception\<close> of the source catches them.
  \<open>OtherException\<close> stands for whatever the provider client raises (network
  errors, JSON decoding errors).
\<close>

datatype py_exception =
    KeyError
  | TypeError
  | IndexError
  | ValueError
  | OtherException string

text \<open>Sequencing of computations that may raise: the first exception wins.\<close>

definition py_bind :: "py_exception + 'a \<Rightarrow> ('a \<Rightarrow> py_exception + 'b) \<Rightarrow> py_exception + 'b" where
  "py_bind r f = (case r of Inl e \<Rightarrow> Inl e | Inr v \<Rightarrow> f v)"

text \<open>\<open>len(v)\<close>\<close>

fun py_len :: "pyval \<Rightarrow> py_exception + nat" where
  "py_len (VStr s) = Inr (length s)"
| "py_len (VList xs) = Inr (length xs)"
| "py_len (VDict d) = Inr (length d)"
| "py_len _ = Inl TypeError"

text \<open>\<open>for x in v\<close>: the items visited. A string yields its characters, a
  dictionary its keys.\<close>

fun py_iter :: "pyval \<Rightarrow> py_exception + pyval list" where
  "py_iter (VList xs) = Inr xs"
| "py_iter (VStr s) = Inr (map (\<lambda>c. VStr [c]) s)"
| "py_iter (VDict d) = Inr (map (\<lambda>kv. VStr (fst kv)) d)"
| "py_iter _ = Inl TypeError"

text \<open>\<open>v[k]\<close> for a string key \<open>k\<close>: only a dictionary accepts it.\<close>

fun py_getitem :: "pyval \<Rightarrow> string \<Rightarrow> py_exception + pyval" where
  "py_getitem (VDict d) k = (case map_of d k of None \<Rightarrow> Inl KeyError | Some v \<Rightarrow> Inr v)"
| "py_getitem _ k = Inl TypeError"

text \<open>\<open>v[0]\<close>. The keys of a dictionary are strings, so the key \<open>0\<close> is never there.\<close>

fun py_getitem0 :: "pyval \<Rightarrow> py_exception + pyval" where
  "py_getitem0 (VList []) = Inl IndexError"
| "py_getitem0 (VList (x # xs)) = Inr x"
| "py_getitem0 (VStr []) = Inl IndexError"
| "py_getitem0 (VStr (c # cs)) = Inr (VStr [c])"
| "py_getitem0 (VDict d) = Inl KeyError"
| "py_getitem0 _ = Inl TypeError"

text \<open>Truth value of \<open>v\<close> in a condition.\<close>

fun py_truthy :: "pyval \<Rightarrow> bool" where
  "py_truthy VNone = False"
| "py_truthy (VBool b) = b"
| "py_truthy (VInt i) = (i \<noteq> 0)"
| "py_truthy (VFloat r) = (r \<noteq> 0)"
| "py_truthy (VStr s) = (s \<noteq> [])"
| "py_truthy (VList xs) = (xs \<noteq> [])"
| "py_truthy (VDict d) = (d \<noteq> [])"

text \<open>
  \<open>a == b\<close>. Booleans, integers and floats compare by numeric value; lists compare
  element by element; dictionaries compare as mappings, whatever the insertion order.
\<close>

fun py_num :: "pyval \<Rightarrow> real option" where
  "py_num (VBool b) = Some (if b then 1 else 0)"
| "py_num (VInt i) = Some (real_of_int i)"
| "py_num (VFloat r) = Some r"
| "py_num _ = None"

fun py_eq :: "pyval \<Rightarrow> pyval \<Rightarrow> bool"
  and py_eq_list :: "pyval list \<Rightarrow> pyval list \<Rightarrow> bool"
  and py_eq_items :: "(string \<times> pyval) list \<Rightarrow> (string \<times> pyval) list \<Rightarrow> bool" where
  "py_eq VNone b = (b = VNone)"
| "py_eq (VBool x) b = (py_num b = Some (if x then 1 else 0))"
| "py_eq (VInt i) b = (py_num b = Some (real_of_int i))"
| "py_eq (VFloat r) b = (py_num b = Some r)"
| "py_eq (VStr s) b = (b = VStr s)"
| "py_eq (VList xs) b = (case b of VList ys \<Rightarrow> py_eq_list xs ys | _ \<Rightarrow> False)"
| "py_eq (VDict d) b =
     (case b of VDict e \<Rightarrow> length d = length e \<and> py_eq_items d e | _ \<Rightarrow> False)"
| "py_eq_list [] ys = (ys = [])"
| "py_eq_list (x # xs) ys =
     (case ys of [] \<Rightarrow> False | y # ys' \<Rightarrow> py_eq x y \<and> py_eq_list xs ys')"
| "py_eq_items [] e = True"
| "py_eq_items (kv # d) e =
     (case map_of e (fst kv) of
        None \<Rightarrow> False
      | Some v' \<Rightarrow> py_eq (snd kv) v' \<and> py_eq_items d e)"

section \<open>The world outside app.py\<close>

text \<open>
  The provider client, the clock and the built-in conversions are not code of app.py:
  they are parameters. The state \<open>'w\<close> of the outside world (the network service,
  the clock) is threaded through every call, so the same call may answer differently
  each time it is made. Each provider call either raises or returns a value.

  \<^item> \<open>oasa_initialised\<close>: the global \<open>oasa\<close> is not \<open>None\<close>.
  \<^item> \<open>oasa_get_closest_stops lat lng\<close>: \<open>oasa.get('getClosestStops', lat, lng)\<close>.
  \<^item> \<open>stop_arrivals code\<close>: \<open>Stop(code).arrivals()\<close>.
  \<^item> \<open>oasa_get_web_routes_for_stop code\<close>: \<open>oasa.get('webRoutesForStop', code)\<close>.
  \<^item> \<open>route_bus_location code\<close>: \<open>Route(code).bus_location()\<close>.
  \<^item> \<open>py_repr v\<close>: \<open>str(v)\<close> for a value that is not a string.
  \<^item> \<open>py_float v\<close>: \<open>float(v)\<close>, which may raise.
  \<^item> \<open>time_time\<close>: \<open>time.time()\<close>; \<open>strftime_now\<close>:
    \<open>datetime.now().strftime('%H:%M:%S')\<close>; \<open>time_sleep\<close>: \<open>time.sleep\<close>.
  \<^item> \<open>server_start_time\<close>: the global set when the module is loaded.
\<close>

record 'w env =
  oasa_initialised :: bool
  oasa_get_closest_stops :: "real \<Rightarrow> real \<Rightarrow> 'w \<Rightarrow> (py_exception + pyval) \<times> 'w"
  stop_arrivals :: "string \<Rightarrow> 'w \<Rightarrow> (py_exception + pyval) \<times> 'w"
  oasa_get_web_routes_for_stop :: "string \<Rightarrow> 'w \<Rightarrow> (py_exception + pyval) \<times> 'w"
  route_bus_location :: "string \<Rightarrow> 'w \<Rightarrow> (py_exception + pyval) \<times> 'w"
  py_repr :: "pyval \<Rightarrow> string"
  py_float :: "pyval \<Rightarrow> py_exception + real"
  time_time :: "'w \<Rightarrow> real \<times> 'w"
  strftime_now :: "'w \<Rightarrow> string \<times> 'w"
  time_sleep :: "int \<Rightarrow> 'w \<Rightarrow> 'w"
  server_start_time :: real

text \<open>\<open>str(v)\<close>: a string is returned as it is.\<close>

definition py_str :: "'w env \<Rightarrow> pyval \<Rightarrow> string" where
  "py_str env v = (case v of VStr s \<Rightarrow> s | _ \<Rightarrow> py_repr env v)"

text \<open>\<open>int(x)\<close> of a float truncates towards zero.\<close>

definition py_int_of_float :: "real \<Rightarrow> int" where
  "py_int_of_float r = (if 0 \<le> r then \<lfloor>r\<rfloor> else \<lceil>r\<rceil>)"

section \<open>Configuration and the cache\<close>

definition DEFAULT_LOCATION_lat :: real where
  "DEFAULT_LOCATION_lat = 38.03700447552456"

definition DEFAULT_LOCATION_lng :: real where
  "DEFAULT_LOCATION_lng = 23.71519323560343"

definition CACHE_DURATION :: int where
  "CACHE_DURATION = 20"

record cache_stats =
  total_updates :: int
  successful_updates :: int
  failed_updates :: int
  uptime :: int

record cache =
  stops :: pyval
  buses :: "pyval list"
  last_update :: real
  stats :: cache_stats

definition initial_cache :: cache where
  "initial_cache =
     \<lparr>stops = VList [], buses = [], last_update = 0,
      stats = \<lparr>total_updates = 0, successful_updates = 0, failed_updates = 0, uptime = 0\<rparr>\<rparr>"

section \<open>Stop discovery: \<open>get_stops\<close>\<close>

text \<open>
  The body of the \<open>try\<close>: the provider call, then \<open>len(stops)\<close> for the log line,
  which raises on a value without a length.
\<close>

definition get_stops_try :: "'w env \<Rightarrow> real \<Rightarrow> real \<Rightarrow> 'w \<Rightarrow> (py_exception + pyval) \<times> 'w" where
  "get_stops_try env lat lng w =
     (case oasa_get_closest_stops env lat lng w of
        (Inl e, w') \<Rightarrow> (Inl e, w')
      | (Inr found, w') \<Rightarrow> (py_bind (py_len found) (\<lambda>n. Inr found), w'))"

definition get_stops :: "'w env \<Rightarrow> real \<Rightarrow> real \<Rightarrow> 'w \<Rightarrow> (py_exception + pyval) \<times> 'w" where
  "get_stops env lat lng w =
     (if \<not> oasa_initialised env then (Inr (VList []), w)
      else case get_stops_try env lat lng w of
        (Inl e, w') \<Rightarrow> (Inr (VList []), w')
      | (Inr found, w') \<Rightarrow> (Inr found, w'))"

section \<open>The join: \<open>get_bus_data\<close>\<close>

text \<open>
  The two local variables of \<open>get_bus_data\<close>, \<open>all_buses\<close> and \<open>errors\<close>, are the
  accumulator of every loop below. What a loop body appended or counted before it
  raised stays in the accumulator.
\<close>

type_synonym join_acc = "pyval list \<times> int"

definition count_error :: "join_acc \<Rightarrow> join_acc" where
  "count_error acc = (fst acc, snd acc + 1)"

text \<open>
  Inside the innermost \<open>try\<close>, once \<open>bus_location\<close> is there: the test
  \<open>bus_location and len(bus_location) > 0\<close> and the reads of \<open>bus_location[0]\<close>.
  \<open>None\<close> means that the test failed and nothing is appended.
\<close>

definition bus_position :: "'w env \<Rightarrow> pyval \<Rightarrow> py_exception + (real \<times> real \<times> pyval) option" where
  "bus_position env bus_location =
     (if \<not> py_truthy bus_location then Inr None
      else py_bind (py_len bus_location) (\<lambda>n.
        if \<not> 0 < n then Inr None
        else
          py_bind (py_getitem0 bus_location) (\<lambda>first.
          py_bind (py_getitem first ''CS_LAT'') (\<lambda>cs_lat.
          py_bind (py_float env cs_lat) (\<lambda>lat.
          py_bind (py_getitem first ''CS_LNG'') (\<lambda>cs_lng.
          py_bind (py_float env cs_lng) (\<lambda>lng.
          py_bind (py_getitem first ''VEH_NO'') (\<lambda>veh_no.
          Inr (Some (lat, lng, veh_no))))))))))"

text \<open>
  The innermost \<open>try\<close> (lines 111 to 120): the vehicle-location call for the
  arrival's route and, when a position is there, the finished \<open>bus_info\<close> to append.
\<close>

definition locate_bus ::
  "'w env \<Rightarrow> pyval \<Rightarrow> (string \<times> pyval) list \<Rightarrow> 'w \<Rightarrow>
     (py_exception + (string \<times> pyval) list option) \<times> 'w" where
  "locate_bus env arrival bus_info w =
     (case py_getitem arrival ''route_code'' of
        Inl e \<Rightarrow> (Inl e, w)
      | Inr code \<Rightarrow>
          (case route_bus_location env (py_str env code) w of
             (Inl e, w1) \<Rightarrow> (Inl e, w1)
           | (Inr bus_location, w1) \<Rightarrow>
               (case bus_position env bus_location of
                  Inl e \<Rightarrow> (Inl e, w1)
                | Inr None \<Rightarrow> (Inr None, w1)
                | Inr (Some (lat, lng, veh_no)) \<Rightarrow>
                    (case strftime_now env w1 of
                       (now, w2) \<Rightarrow>
                         (Inr (Some
                            (AList.update ''last_update'' (VStr now)
                            (AList.update ''vehicle_id'' veh_no
                            (AList.update ''lng'' (VFloat lng)
                            (AList.update ''lat'' (VFloat lat) bus_info))))), w2)))))"

text \<open>
  Lines 102 to 108: the comparison of the route codes and, on a match, the copy of
  \<open>route_info\<close> with the four fields set. \<open>None\<close> means no match.
  \<open>route_info['RouteCode']\<close> is read before \<open>arrival['route_code']\<close>; only a
  dictionary passes the first read, so only a dictionary is copied.
\<close>

definition match_route :: "pyval \<Rightarrow> pyval \<Rightarrow> pyval \<Rightarrow> py_exception + (string \<times> pyval) list option" where
  "match_route stop_info arrival route_info =
     py_bind (py_getitem route_info ''RouteCode'') (\<lambda>route_code.
     py_bind (py_getitem arrival ''route_code'') (\<lambda>arrival_code.
       if \<not> py_eq route_code arrival_code then Inr None
       else
         (case route_info of
            VDict d \<Rightarrow>
              py_bind (py_getitem arrival ''btime2'') (\<lambda>btime2.
              py_bind (py_getitem stop_info ''StopDescr'') (\<lambda>descr.
              py_bind (py_getitem stop_info ''StopID'') (\<lambda>stop_id.
              py_bind (py_getitem arrival ''route_code'') (\<lambda>code.
              Inr (Some
                (AList.update ''route_code'' code
                (AList.update ''stop_id'' stop_id
                (AList.update ''stop_name'' descr
                (AList.update ''time_left'' btime2 d)))))))))
          | _ \<Rightarrow> Inl TypeError)))"

text \<open>
  One turn of \<open>for route_info in routes\<close>. An exception of the matching part leaves
  the loop (it is caught one level up); an exception of the innermost \<open>try\<close> is
  caught here and counted, and the loop goes on. The handler formats
  \<open>arrival['route_code']\<close> into its log message before it counts.
\<close>

definition process_route ::
  "'w env \<Rightarrow> pyval \<Rightarrow> pyval \<Rightarrow> pyval \<Rightarrow> join_acc \<Rightarrow> 'w \<Rightarrow> py_exception option \<times> join_acc \<times> 'w" where
  "process_route env stop_info arrival route_info acc w =
     (case match_route stop_info arrival route_info of
        Inl e \<Rightarrow> (Some e, acc, w)
      | Inr None \<Rightarrow> (None, acc, w)
      | Inr (Some bus_info) \<Rightarrow>
          (case locate_bus env arrival bus_info w of
             (Inl e, w') \<Rightarrow>
               (case py_getitem arrival ''route_code'' of
                  Inl e' \<Rightarrow> (Some e', acc, w')
                | Inr code \<Rightarrow> (None, count_error acc, w'))
           | (Inr None, w') \<Rightarrow> (None, acc, w')
           | (Inr (Some bus), w') \<Rightarrow> (None, (fst acc @ [VDict bus], snd acc), w')))"

fun process_routes ::
  "'w env \<Rightarrow> pyval \<Rightarrow> pyval \<Rightarrow> pyval list \<Rightarrow> join_acc \<Rightarrow> 'w \<Rightarrow> py_exception option \<times> join_acc \<times> 'w" where
  "process_routes env stop_info arrival [] acc w = (None, acc, w)"
| "process_routes env stop_info arrival (route_info # rest) acc w =
     (case process_route env stop_info arrival route_info acc w of
        (Some e, acc', w') \<Rightarrow> (Some e, acc', w')
      | (None, acc', w') \<Rightarrow> process_routes env stop_info arrival rest acc' w')"

text \<open>
  The handlers of lines 124 and 127 format \<open>stop_info['StopID']\<close> into the log
  message before they count the error: when that read raises, the exception leaves
  the handler.
\<close>

definition log_and_count :: "pyval \<Rightarrow> join_acc \<Rightarrow> 'w \<Rightarrow> py_exception option \<times> join_acc \<times> 'w" where
  "log_and_count stop_info acc w =
     (case py_getitem stop_info ''StopID'' of
        Inl e \<Rightarrow> (Some e, acc, w)
      | Inr stop_id \<Rightarrow> (None, count_error acc, w))"

text \<open>
  One turn of \<open>for arrival in arrivals\<close> (lines 98 to 126). \<open>stopcode\<close> is the
  string the \<open>Stop\<close> object was built from; the route listing is fetched anew for
  every arrival.
\<close>

definition process_arrival ::
  "'w env \<Rightarrow> pyval \<Rightarrow> string \<Rightarrow> pyval \<Rightarrow> join_acc \<Rightarrow> 'w \<Rightarrow> py_exception option \<times> join_acc \<times> 'w" where
  "process_arrival env stop_info stopcode arrival acc w =
     (case oasa_get_web_routes_for_stop env (py_str env (VStr stopcode)) w of
        (Inl e, w1) \<Rightarrow> log_and_count stop_info acc w1
      | (Inr routes, w1) \<Rightarrow>
          (case py_iter routes of
             Inl e \<Rightarrow> log_and_count stop_info acc w1
           | Inr route_infos \<Rightarrow>
               (case process_routes env stop_info arrival route_infos acc w1 of
                  (Some e, acc', w') \<Rightarrow> log_and_count stop_info acc' w'
                | (None, acc', w') \<Rightarrow> (None, acc', w'))))"

fun process_arrivals ::
  "'w env \<Rightarrow> pyval \<Rightarrow> string \<Rightarrow> pyval list \<Rightarrow> join_acc \<Rightarrow> 'w \<Rightarrow> py_exception option \<times> join_acc \<times> 'w" where
  "process_arrivals env stop_info stopcode [] acc w = (None, acc, w)"
| "process_arrivals env stop_info stopcode (arrival # rest) acc w =
     (case process_arrival env stop_info stopcode arrival acc w of
        (Some e, acc', w') \<Rightarrow> (Some e, acc', w')
      | (None, acc', w') \<Rightarrow> process_arrivals env stop_info stopcode rest acc' w')"

text \<open>
  One turn of \<open>for stop_info in stops\<close> (lines 88 to 129). The log line of the
  \<open>arrivals is None\<close> branch reads \<open>StopID\<close> and \<open>StopDescr\<close>.
\<close>

definition process_stop ::
  "'w env \<Rightarrow> pyval \<Rightarrow> join_acc \<Rightarrow> 'w \<Rightarrow> py_exception option \<times> join_acc \<times> 'w" where
  "process_stop env stop_info acc w =
     (case py_getitem stop_info ''StopID'' of
        Inl e \<Rightarrow> log_and_count stop_info acc w
      | Inr stop_id \<Rightarrow>
          (case stop_arrivals env (py_str env stop_id) w of
             (Inl e, w1) \<Rightarrow> log_and_count stop_info acc w1
           | (Inr arrivals, w1) \<Rightarrow>
               if arrivals = VNone then
                 (case py_bind (py_getitem stop_info ''StopID'') (\<lambda>i.
                         py_getitem stop_info ''StopDescr'') of
                    Inl e \<Rightarrow> log_and_count stop_info acc w1
                  | Inr d \<Rightarrow> (None, acc, w1))
               else
                 (case py_iter arrivals of
                    Inl e \<Rightarrow> log_and_count stop_info acc w1
                  | Inr arrival_list \<Rightarrow>
                      (case process_arrivals env stop_info (py_str env stop_id)
                              arrival_list acc w1 of
                         (Some e, acc', w') \<Rightarrow> log_and_count stop_info acc' w'
                       | (None, acc', w') \<Rightarrow> (None, acc', w')))))"

fun process_stops ::
  "'w env \<Rightarrow> pyval list \<Rightarrow> join_acc \<Rightarrow> 'w \<Rightarrow> py_exception option \<times> join_acc \<times> 'w" where
  "process_stops env [] acc w = (None, acc, w)"
| "process_stops env (stop_info # rest) acc w =
     (case process_stop env stop_info acc w of
        (Some e, acc', w') \<Rightarrow> (Some e, acc', w')
      | (None, acc', w') \<Rightarrow> process_stops env rest acc' w')"

text \<open>
  \<open>get_bus_data\<close> with its local variables still visible: the exception that left
  the function, if any, then \<open>all_buses\<close> and \<open>errors\<close>. The count of errors is
  only written to the log by the source.
\<close>

definition get_bus_data_run ::
  "'w env \<Rightarrow> pyval \<Rightarrow> 'w \<Rightarrow> py_exception option \<times> join_acc \<times> 'w" where
  "get_bus_data_run env stops_arg w =
     (if \<not> oasa_initialised env then (None, ([], 0), w)
      else case py_iter stops_arg of
        Inl e \<Rightarrow> (Some e, ([], 0), w)
      | Inr stop_infos \<Rightarrow> process_stops env stop_infos ([], 0) w)"

definition get_bus_data :: "'w env \<Rightarrow> pyval \<Rightarrow> 'w \<Rightarrow> (py_exception + pyval list) \<times> 'w" where
  "get_bus_data env stops_arg w =
     (case get_bus_data_run env stops_arg w of
        (Some e, acc, w') \<Rightarrow> (Inl e, w')
      | (None, acc, w') \<Rightarrow> (Inr (fst acc), w'))"

section \<open>The refresh loop: \<open>update_cache\<close>\<close>

text \<open>
  The body of the \<open>try\<close> of one turn of \<open>while True\<close> (lines 140 to 156). The cache
  is a global that the body changes in place, so the cache as it stands is returned
  together with the exception: what was assigned before a \<open>raise\<close> stays assigned.
  The log line at the end takes \<open>len(stops)\<close> and \<open>len(buses)\<close>; \<open>buses\<close> is the
  list \<open>all_buses\<close>.
\<close>

definition bump_total :: "cache \<Rightarrow> cache" where
  "bump_total c = c\<lparr>stats := (stats c)\<lparr>total_updates := total_updates (stats c) + 1\<rparr>\<rparr>"

definition bump_successful :: "cache \<Rightarrow> cache" where
  "bump_successful c =
     c\<lparr>stats := (stats c)\<lparr>successful_updates := successful_updates (stats c) + 1\<rparr>\<rparr>"

definition bump_failed :: "cache \<Rightarrow> cache" where
  "bump_failed c = c\<lparr>stats := (stats c)\<lparr>failed_updates := failed_updates (stats c) + 1\<rparr>\<rparr>"

text \<open>Lines 145 and 146: discovery, then the join on what it returned.\<close>

definition discovery_and_join ::
  "'w env \<Rightarrow> 'w \<Rightarrow> (py_exception + pyval \<times> pyval list) \<times> 'w" where
  "discovery_and_join env w =
     (case get_stops env DEFAULT_LOCATION_lat DEFAULT_LOCATION_lng w of
        (Inl e, w1) \<Rightarrow> (Inl e, w1)
      | (Inr new_stops, w1) \<Rightarrow>
          (case get_bus_data env new_stops w1 of
             (Inl e, w2) \<Rightarrow> (Inl e, w2)
           | (Inr new_buses, w2) \<Rightarrow> (Inr (new_stops, new_buses), w2)))"

definition update_cache_try :: "'w env \<Rightarrow> cache \<Rightarrow> 'w \<Rightarrow> py_exception option \<times> cache \<times> 'w" where
  "update_cache_try env c w =
     (case time_time env w of
        (update_start, w0) \<Rightarrow>
     (case discovery_and_join env w0 of
        (Inl e, w2) \<Rightarrow> (Some e, bump_total c, w2)
      | (Inr (new_stops, new_buses), w2) \<Rightarrow>
     (case time_time env w2 of
        (t_update, w3) \<Rightarrow>
     (case time_time env w3 of
        (t_uptime, w4) \<Rightarrow>
     (case time_time env w4 of
        (t_end, w5) \<Rightarrow>
          (let c1 = bump_successful
                      ((bump_total c)\<lparr>stops := new_stops, buses := new_buses,
                                      last_update := t_update\<rparr>);
               c2 = c1\<lparr>stats := (stats c1)\<lparr>uptime :=
                                    py_int_of_float (t_uptime - server_start_time env)\<rparr>\<rparr>
           in case py_len new_stops of
                Inl e \<Rightarrow> (Some e, c2, w5)
              | Inr n \<Rightarrow> (None, c2, w5)))))))"

text \<open>One turn of the loop: the \<open>try\<close>, its handler, then the sleep.\<close>

definition update_cache_cycle :: "'w env \<Rightarrow> cache \<Rightarrow> 'w \<Rightarrow> cache \<times> 'w" where
  "update_cache_cycle env c w =
     (case update_cache_try env c w of
        (Some e, c', w') \<Rightarrow> (bump_failed c', time_sleep env CACHE_DURATION w')
      | (None, c', w') \<Rightarrow> (c', time_sleep env CACHE_DURATION w'))"

text \<open>
  \<open>update_cache\<close> is \<open>while True\<close>: it never returns. \<open>update_cache n\<close> is the
  cache and the world after the first \<open>n\<close> turns of the loop.
\<close>

fun update_cache :: "'w env \<Rightarrow> nat \<Rightarrow> cache \<Rightarrow> 'w \<Rightarrow> cache \<times> 'w" where
  "update_cache env 0 c w = (c, w)"
| "update_cache env (Suc n) c w =
     (case update_cache_cycle env c w of (c', w') \<Rightarrow> update_cache env n c' w')"

text \<open>
  The cache after each store of the \<open>try\<close> of one turn, in the order of the source:
  line 142 (\<open>total_updates\<close>), then, when discovery and the join have returned, lines
  149 (\<open>stops\<close>), 150 (\<open>buses\<close>), 151 (\<open>last_update\<close>), 152 (\<open>successful_updates\<close>)
  and 153 (\<open>uptime\<close>). The cache is a global dictionary and no lock is taken anywhere
  in app.py, so each of these is a cache that a request handler running in another
  thread can read.
\<close>

definition update_cache_stores :: "'w env \<Rightarrow> cache \<Rightarrow> 'w \<Rightarrow> cache list" where
  "update_cache_stores env c w =
     (case time_time env w of
        (update_start, w0) \<Rightarrow>
     (case discovery_and_join env w0 of
        (Inl e, w2) \<Rightarrow> [bump_total c]
      | (Inr (new_stops, new_buses), w2) \<Rightarrow>
     (case time_time env w2 of
        (t_update, w3) \<Rightarrow>
     (case time_time env w3 of
        (t_uptime, w4) \<Rightarrow>
          (let c1 = bump_total c;
               c2 = c1\<lparr>stops := new_stops\<rparr>;
               c3 = c2\<lparr>buses := new_buses\<rparr>;
               c4 = c3\<lparr>last_update := t_update\<rparr>;
               c5 = bump_successful c4;
               c6 = c5\<lparr>stats := (stats c5)\<lparr>uptime :=
                                    py_int_of_float (t_uptime - server_start_time env)\<rparr>\<rparr>
           in [c1, c2, c3, c4, c5, c6])))))"

section \<open>The query handlers\<close>

text \<open>
  The two fields of the answer of \<open>get_buses_api\<close> (lines 214 to 217), read from the
  cache as the handler finds it.
\<close>

definition get_buses_api :: "cache \<Rightarrow> pyval list \<times> real" where
  "get_buses_api c = (buses c, last_update c)"

section \<open>Notions used in the statements\<close>

text \<open>
  The cache after a turn of the loop whose \<open>try\<close> ran to its end: the three fields of
  the snapshot replaced, and both counters of the turn incremented.
\<close>

definition publish :: "'w env \<Rightarrow> cache \<Rightarrow> pyval \<Rightarrow> pyval list \<Rightarrow> real \<Rightarrow> real \<Rightarrow> cache" where
  "publish env c new_stops new_buses t_update t_uptime =
     \<lparr>stops = new_stops, buses = new_buses, last_update = t_update,
      stats = \<lparr>total_updates = total_updates (stats c) + 1,
               successful_updates = successful_updates (stats c) + 1,
               failed_updates = failed_updates (stats c),
               uptime = py_int_of_float (t_uptime - server_start_time env)\<rparr>\<rparr>"

text \<open>The counters of successful and failed updates add up to the total.\<close>

definition counters_agree :: "cache \<Rightarrow> bool" where
  "counters_agree c =
     (successful_updates (stats c) + failed_updates (stats c) = total_updates (stats c))"

text \<open>
  The route entry carries the route code of the arrival: both reads succeed and the
  values are equal (line 102).
\<close>

definition same_route_code :: "pyval \<Rightarrow> pyval \<Rightarrow> bool" where
  "same_route_code arrival route_info =
     (case py_getitem route_info ''RouteCode'' of
        Inl e \<Rightarrow> False
      | Inr route_code \<Rightarrow>
          (case py_getitem arrival ''route_code'' of
             Inl e \<Rightarrow> False
           | Inr arrival_code \<Rightarrow> py_eq route_code arrival_code))"

text \<open>
  The entries of the route listing fetched for an arrival in the world \<open>w\<close>; none when
  the fetch raises or returns something that cannot be iterated.
\<close>

definition route_listing :: "'w env \<Rightarrow> string \<Rightarrow> 'w \<Rightarrow> pyval list" where
  "route_listing env stopcode w =
     (case oasa_get_web_routes_for_stop env stopcode w of
        (Inl e, w1) \<Rightarrow> []
      | (Inr routes, w1) \<Rightarrow> (case py_iter routes of Inl e \<Rightarrow> [] | Inr entries \<Rightarrow> entries))"

text \<open>
  A sighting built from the first entry of a non-empty position list: some
  vehicle-location call for the arrival's route returned a list \<open>p # ps\<close>, and the
  latitude, longitude and vehicle of the sighting are those read from \<open>p\<close> alone.
\<close>

definition built_from_first_position :: "'w env \<Rightarrow> pyval \<Rightarrow> pyval \<Rightarrow> bool" where
  "built_from_first_position env arrival bus =
     (\<exists>code w1 w2 p ps lat lng veh_no d.
        py_getitem arrival ''route_code'' = Inr code
        \<and> route_bus_location env (py_str env code) w1 = (Inr (VList (p # ps)), w2)
        \<and> bus_position env (VList [p]) = Inr (Some (lat, lng, veh_no))
        \<and> bus = VDict d
        \<and> map_of d ''lat'' = Some (VFloat lat)
        \<and> map_of d ''lng'' = Some (VFloat lng)
        \<and> map_of d ''vehicle_id'' = Some veh_no)"

text \<open>
  The entry can be compared with the arrival: \<open>route_info['RouteCode']\<close> does not raise.
\<close>

definition comparable :: "pyval \<Rightarrow> bool" where
  "comparable route_info =
     (case py_getitem route_info ''RouteCode'' of Inl e \<Rightarrow> False | Inr route_code \<Rightarrow> True)"

text \<open>
  The stop and the arrival carry the fields that lines 105 to 108 copy:
  \<open>btime2\<close> and \<open>route_code\<close> of the arrival, \<open>StopDescr\<close> and \<open>StopID\<close> of the stop.
\<close>

definition copied_fields_present :: "pyval \<Rightarrow> pyval \<Rightarrow> bool" where
  "copied_fields_present stop_info arrival =
     (case py_getitem arrival ''route_code'' of
        Inl e \<Rightarrow> False
      | Inr code \<Rightarrow>
     (case py_getitem arrival ''btime2'' of
        Inl e \<Rightarrow> False
      | Inr btime2 \<Rightarrow>
     (case py_getitem stop_info ''StopDescr'' of
        Inl e \<Rightarrow> False
      | Inr descr \<Rightarrow>
     (case py_getitem stop_info ''StopID'' of
        Inl e \<Rightarrow> False
      | Inr stop_id \<Rightarrow> True))))"

text \<open>
  Whenever it is made, the vehicle-location call for the route of the arrival returns
  a position list that passes the test of line 115 and whose first entry can be read.
\<close>

definition always_located :: "'w env \<Rightarrow> pyval \<Rightarrow> bool" where
  "always_located env arrival =
     (\<exists>code. py_getitem arrival ''route_code'' = Inr code
        \<and> (\<forall>w. \<exists>bus_location w' pos.
               route_bus_location env (py_str env code) w = (Inr bus_location, w')
               \<and> bus_position env bus_location = Inr (Some pos)))"

section \<open>Sample providers\<close>

text \<open>
  Concrete worlds on which the statements below are evaluated. The state of the world
  is the number of calls made so far; every provider call answers with a fixed outcome.
\<close>

definition sample_float :: "pyval \<Rightarrow> py_exception + real" where
  "sample_float v =
     (if v = VStr ''38.01'' then Inr 38.01
      else if v = VStr ''23.70'' then Inr 23.70
      else Inl ValueError)"

definition sample_env ::
  "bool \<Rightarrow> py_exception + pyval \<Rightarrow> py_exception + pyval \<Rightarrow> py_exception + pyval \<Rightarrow>
     py_exception + pyval \<Rightarrow> nat env" where
  "sample_env init closest arrivals routes location =
     \<lparr>oasa_initialised = init,
      oasa_get_closest_stops = (\<lambda>lat lng w. (closest, Suc w)),
      stop_arrivals = (\<lambda>code w. (arrivals, Suc w)),
      oasa_get_web_routes_for_stop = (\<lambda>code w. (routes, Suc w)),
      route_bus_location = (\<lambda>code w. (location, Suc w)),
      py_repr = (\<lambda>v. ''?''),
      py_float = sample_float,
      time_time = (\<lambda>w. (real w, Suc w)),
      strftime_now = (\<lambda>w. (''12:00:00'', Suc w)),
      time_sleep = (\<lambda>d w. w + nat d),
      server_start_time = 0\<rparr>"

definition stop_101 :: pyval where
  "stop_101 = VDict [(''StopID'', VStr ''101''), (''StopDescr'', VStr ''Main St'')]"

definition arrival_A10 :: pyval where
  "arrival_A10 = VDict [(''route_code'', VStr ''A10''), (''btime2'', VStr ''5'')]"

definition route_A10 :: pyval where
  "route_A10 = VDict [(''RouteCode'', VStr ''A10''), (''LineID'', VStr ''10'')]"

definition position_V1 :: pyval where
  "position_V1 =
     VDict [(''CS_LAT'', VStr ''38.01''), (''CS_LNG'', VStr ''23.70''), (''VEH_NO'', VStr ''V1'')]"

text \<open>A cache as a first successful turn may have left it.\<close>

definition previous_cache :: cache where
  "previous_cache =
     \<lparr>stops = VList [stop_101], buses = [], last_update = 5,
      stats = \<lparr>total_updates = 1, successful_updates = 1, failed_updates = 0, uptime = 0\<rparr>\<rparr>"

text \<open>A provider call that raises.\<close>

definition timeout :: "py_exception + pyval" where
  "timeout = Inl (OtherException ''timeout'')"

text \<open>A stop record that lacks the key \<open>StopID\<close>.\<close>

definition stop_without_id :: pyval where
  "stop_without_id = VDict [(''StopDescr'', VStr ''Main St'')]"

text \<open>The sighting the sample provider yields for route A10 at stop 101.\<close>

definition sighting_A10 :: pyval where
  "sighting_A10 =
     VDict [(''RouteCode'', VStr ''A10''), (''LineID'', VStr ''10''),
            (''time_left'', VStr ''5''), (''stop_name'', VStr ''Main St''),
            (''stop_id'', VStr ''101''), (''route_code'', VStr ''A10''),
            (''lat'', VFloat 38.01), (''lng'', VFloat 23.70),
            (''vehicle_id'', VStr ''V1''), (''last_update'', VStr ''12:00:00'')]"

text \<open>One stop, one arrival, one route in the listing, one vehicle position.\<close>

definition scenario_env :: "nat env" where
  "scenario_env =
     sample_env True (Inr (VList [stop_101])) (Inr (VList [arrival_A10]))
       (Inr (VList [route_A10])) (Inr (VList [position_V1]))"

text \<open>The same, with the route A10 twice in the listing of the stop.\<close>

definition duplicate_env :: "nat env" where
  "duplicate_env =
     sample_env True (Inr (VList [stop_101])) (Inr (VList [arrival_A10]))
       (Inr (VList [route_A10, route_A10])) (Inr (VList [position_V1]))"

text \<open>Another route of the listing, which no arrival of the samples asks for.\<close>

definition route_B20 :: pyval where
  "route_B20 = VDict [(''RouteCode'', VStr ''B20''), (''LineID'', VStr ''20'')]"

text \<open>The vehicle-location call raises; the route A10 is once in the listing.\<close>

definition failing_env :: "nat env" where
  "failing_env =
     sample_env True (Inr (VList [stop_101])) (Inr (VList [arrival_A10]))
       (Inr (VList [route_B20, route_A10])) timeout"

text \<open>
  The route A10 is twice in the listing; the vehicle-location call raises when it is
  made in the world 2 (the first time the join makes it) and answers afterwards.
\<close>

definition flaky_env :: "nat env" where
  "flaky_env =
     duplicate_env\<lparr>route_bus_location :=
       (\<lambda>code w. (if w = 2 then timeout else Inr (VList [position_V1]), Suc w))\<rparr>"

text \<open>
  The vehicle-location call raises; the route A10 is once in the listing, followed by
  an entry without \<open>RouteCode\<close>.
\<close>

definition unreadable_entry_env :: "nat env" where
  "unreadable_entry_env =
     sample_env True (Inr (VList [stop_101])) (Inr (VList [arrival_A10]))
       (Inr (VList [route_A10, VDict [(''LineID'', VStr ''10'')]])) timeout"

section \<open>Discovery never raises\<close>

lemma get_stops_returns:
  "\<exists>found w'. get_stops env lat lng w = (Inr found, w') \<and> (\<exists>n. py_len found = Inr n)"
  by (auto simp: get_stops_def get_stops_try_def py_bind_def split: prod.splits sum.splits)

lemma get_stops_has_len:
  assumes "get_stops env lat lng w = (Inr found, w')"
  shows "\<exists>n. py_len found = Inr n"
  using assms get_stops_returns [of env lat lng w] by auto

lemma get_stops_not_raised: "get_stops env lat lng w \<noteq> (Inl e, w')"
  using get_stops_returns [of env lat lng w] by auto

section \<open>One turn of the refresh loop\<close>

lemma update_cache_try_join_raised:
  assumes "time_time env w = (t0, w0)"
    and "get_stops env DEFAULT_LOCATION_lat DEFAULT_LOCATION_lng w0 = (Inr found, w1)"
    and "get_bus_data env found w1 = (Inl e, w2)"
  shows "update_cache_try env c w = (Some e, bump_total c, w2)"
  using assms by (simp add: update_cache_try_def discovery_and_join_def)

lemma update_cache_try_published:
  assumes "time_time env w = (t0, w0)"
    and "get_stops env DEFAULT_LOCATION_lat DEFAULT_LOCATION_lng w0 = (Inr found, w1)"
    and "get_bus_data env found w1 = (Inr joined, w2)"
    and "time_time env w2 = (t_update, w3)"
    and "time_time env w3 = (t_uptime, w4)"
    and "time_time env w4 = (t_end, w5)"
  shows "update_cache_try env c w = (None, publish env c found joined t_update t_uptime, w5)"
proof -
  obtain n where "py_len found = Inr n"
    using get_stops_has_len [OF assms(2)] by blast
  then show ?thesis
    using assms
    by (simp add: update_cache_try_def discovery_and_join_def publish_def bump_total_def
        bump_successful_def Let_def)
qed

lemma update_cache_try_cases:
  "(\<exists>e w'. update_cache_try env c w = (Some e, bump_total c, w')) \<or>
   (\<exists>found joined t_update t_uptime w'.
      update_cache_try env c w = (None, publish env c found joined t_update t_uptime, w'))"
proof -
  obtain t0 w0 where a: "time_time env w = (t0, w0)" by (cases "time_time env w")
  obtain found w1 where b: "get_stops env DEFAULT_LOCATION_lat DEFAULT_LOCATION_lng w0 = (Inr found, w1)"
    using get_stops_returns [of env DEFAULT_LOCATION_lat DEFAULT_LOCATION_lng w0] by auto
  obtain r w2 where c: "get_bus_data env found w1 = (r, w2)" by (cases "get_bus_data env found w1")
  show ?thesis
  proof (cases r)
    case (Inl e)
    with c have "get_bus_data env found w1 = (Inl e, w2)" by simp
    then have "update_cache_try env c w = (Some e, bump_total c, w2)"
      by (rule update_cache_try_join_raised [OF a b])
    then show ?thesis by blast
  next
    case (Inr joined)
    obtain t_update w3 where d: "time_time env w2 = (t_update, w3)" by (cases "time_time env w2")
    obtain t_uptime w4 where e: "time_time env w3 = (t_uptime, w4)" by (cases "time_time env w3")
    obtain t_end w5 where f: "time_time env w4 = (t_end, w5)" by (cases "time_time env w4")
    from c Inr have "get_bus_data env found w1 = (Inr joined, w2)" by simp
    then have "update_cache_try env c w =
        (None, publish env c found joined t_update t_uptime, w5)"
      using d e f by (rule update_cache_try_published [OF a b])
    then show ?thesis by blast
  qed
qed

lemma cycle_counters:
  "total_updates (stats (fst (update_cache_cycle env c w))) = total_updates (stats c) + 1 \<and>
   (successful_updates (stats (fst (update_cache_cycle env c w))) = successful_updates (stats c) + 1 \<and>
    failed_updates (stats (fst (update_cache_cycle env c w))) = failed_updates (stats c)
    \<or>
    successful_updates (stats (fst (update_cache_cycle env c w))) = successful_updates (stats c) \<and>
    failed_updates (stats (fst (update_cache_cycle env c w))) = failed_updates (stats c) + 1)"
  using update_cache_try_cases [of env c w]
  by (auto simp: update_cache_cycle_def publish_def bump_total_def bump_failed_def)

lemma cycle_keeps_agreement:
  "counters_agree c \<Longrightarrow> counters_agree (fst (update_cache_cycle env c w))"
  using cycle_counters [of env c w] by (auto simp: counters_agree_def)

lemma update_cache_keeps_agreement:
  "counters_agree c \<Longrightarrow> counters_agree (fst (update_cache env n c w))"
proof (induction n arbitrary: c w)
  case 0
  then show ?case by simp
next
  case (Suc n)
  obtain c' w' where step: "update_cache_cycle env c w = (c', w')"
    by (cases "update_cache_cycle env c w")
  have "counters_agree c'"
    using cycle_keeps_agreement [OF Suc.prems, of env w] step by simp
  then show ?case using Suc.IH step by simp
qed

lemma update_cache_total:
  "total_updates (stats (fst (update_cache env n c w))) = total_updates (stats c) + int n"
proof (induction n arbitrary: c w)
  case 0
  then show ?case by simp
next
  case (Suc n)
  obtain c' w' where step: "update_cache_cycle env c w = (c', w')"
    by (cases "update_cache_cycle env c w")
  have "total_updates (stats c') = total_updates (stats c) + 1"
    using cycle_counters [of env c w] step by simp
  then show ?case using Suc.IH [of c' w'] step by simp
qed

text \<open>
  Claim C2. After any number of completed turns of the refresh loop, started on the
  initial cache, \<open>successful_updates + failed_updates = total_updates\<close>, and
  \<open>total_updates\<close> is the number of turns. Each turn, from any cache, adds exactly one
  to \<open>total_updates\<close> and exactly one to exactly one of \<open>successful_updates\<close> and
  \<open>failed_updates\<close>.
\<close>

theorem stats_counters_add_up:
  "successful_updates (stats (fst (update_cache env n initial_cache w)))
     + failed_updates (stats (fst (update_cache env n initial_cache w)))
     = total_updates (stats (fst (update_cache env n initial_cache w)))
   \<and> total_updates (stats (fst (update_cache env n initial_cache w))) = int n
   \<and> total_updates (stats (fst (update_cache_cycle env c w))) = total_updates (stats c) + 1
   \<and> (successful_updates (stats (fst (update_cache_cycle env c w))) = successful_updates (stats c) + 1
        \<and> failed_updates (stats (fst (update_cache_cycle env c w))) = failed_updates (stats c)
      \<or> successful_updates (stats (fst (update_cache_cycle env c w))) = successful_updates (stats c)
        \<and> failed_updates (stats (fst (update_cache_cycle env c w))) = failed_updates (stats c) + 1)"
proof -
  have "counters_agree initial_cache"
    by (simp add: counters_agree_def initial_cache_def)
  then have "counters_agree (fst (update_cache env n initial_cache w))"
    by (rule update_cache_keeps_agreement)
  moreover have "total_updates (stats (fst (update_cache env n initial_cache w))) = int n"
    using update_cache_total [of env n initial_cache w] by (simp add: initial_cache_def)
  ultimately show ?thesis
    using cycle_counters [of env c w] by (simp add: counters_agree_def)
qed

lemma get_bus_data_no_stops: "get_bus_data env (VList []) w = (Inr [], w)"
  by (simp add: get_bus_data_def get_bus_data_run_def)

lemma discovery_and_join_raised:
  assumes "discovery_and_join env w0 = (Inl e, w2)"
  shows "\<exists>found w1. get_stops env DEFAULT_LOCATION_lat DEFAULT_LOCATION_lng w0 = (Inr found, w1)
           \<and> get_bus_data env found w1 = (Inl e, w2)"
  using assms get_stops_returns [of env DEFAULT_LOCATION_lat DEFAULT_LOCATION_lng w0]
  by (auto simp: discovery_and_join_def split: prod.splits sum.splits)

section \<open>Claims about discovery and the refresh loop\<close>

text \<open>
  Claim C8. For every location and every state of the world, \<open>get_stops\<close> returns and
  never raises. It returns the empty list when the provider is not initialised, when
  the provider call raises (a network error, a response that cannot be decoded), and
  when the call returns a value without a length.
\<close>

theorem discovery_never_raises:
  "(\<exists>found w'. get_stops env lat lng w = (Inr found, w'))
   \<and> (\<not> oasa_initialised env \<longrightarrow> get_stops env lat lng w = (Inr (VList []), w))
   \<and> (oasa_initialised env \<and> oasa_get_closest_stops env lat lng w = (Inl e, w1)
        \<longrightarrow> get_stops env lat lng w = (Inr (VList []), w1))
   \<and> (oasa_initialised env \<and> oasa_get_closest_stops env lat lng w = (Inr v, w1)
        \<and> py_len v = Inl e
        \<longrightarrow> get_stops env lat lng w = (Inr (VList []), w1))"
proof -
  have "\<exists>found w'. get_stops env lat lng w = (Inr found, w')"
    using get_stops_returns [of env lat lng w] by blast
  moreover have "\<not> oasa_initialised env \<Longrightarrow> get_stops env lat lng w = (Inr (VList []), w)"
    by (simp add: get_stops_def)
  moreover have "oasa_initialised env \<Longrightarrow> oasa_get_closest_stops env lat lng w = (Inl e, w1)
      \<Longrightarrow> get_stops env lat lng w = (Inr (VList []), w1)"
    by (simp add: get_stops_def get_stops_try_def)
  moreover have "oasa_initialised env \<Longrightarrow> oasa_get_closest_stops env lat lng w = (Inr v, w1)
      \<Longrightarrow> py_len v = Inl e \<Longrightarrow> get_stops env lat lng w = (Inr (VList []), w1)"
    by (simp add: get_stops_def get_stops_try_def py_bind_def)
  ultimately show ?thesis by blast
qed

theorem discovery_never_raises_witness:
  "get_stops (sample_env False timeout timeout timeout timeout) 38 23 0 = (Inr (VList []), 0)
   \<and> get_stops (sample_env True timeout timeout timeout timeout) 38 23 0 = (Inr (VList []), 1)
   \<and> get_stops (sample_env True (Inr VNone) timeout timeout timeout) 38 23 0 = (Inr (VList []), 1)"
proof -
  have a: "\<not> oasa_initialised (sample_env False timeout timeout timeout timeout)"
    by (simp add: sample_env_def)
  have b: "oasa_initialised (sample_env True timeout timeout timeout timeout)
      \<and> oasa_get_closest_stops (sample_env True timeout timeout timeout timeout) 38 23 0
          = (Inl (OtherException ''timeout''), 1)"
    by (simp add: sample_env_def timeout_def)
  have c: "oasa_initialised (sample_env True (Inr VNone) timeout timeout timeout)
      \<and> oasa_get_closest_stops (sample_env True (Inr VNone) timeout timeout timeout) 38 23 0
          = (Inr VNone, 1)
      \<and> py_len VNone = Inl TypeError"
    by (simp add: sample_env_def)
  show ?thesis
    using a b c
      discovery_never_raises [of "sample_env False timeout timeout timeout timeout" 38 23 0]
      discovery_never_raises [of "sample_env True timeout timeout timeout timeout" 38 23 0
        "OtherException ''timeout''" 1]
      discovery_never_raises [of "sample_env True (Inr VNone) timeout timeout timeout" 38 23 0
        TypeError 1 VNone]
    by blast
qed

text \<open>
  Claim C10. When the provider client is not initialised, \<open>get_bus_data\<close> returns the
  empty list for every argument, without raising; no stop is processed: no error is
  counted and the world is left as it was, so no provider call was made.
\<close>

theorem join_without_provider:
  assumes "\<not> oasa_initialised env"
  shows "get_bus_data env stops_arg w = (Inr [], w)
     \<and> get_bus_data_run env stops_arg w = (None, ([], 0), w)"
  using assms by (simp add: get_bus_data_def get_bus_data_run_def)

theorem join_without_provider_witness:
  "get_bus_data (sample_env False (Inr (VList [stop_101])) (Inr (VList [arrival_A10]))
       (Inr (VList [route_A10])) (Inr (VList [position_V1]))) (VList [stop_101, VInt 7]) 0
     = (Inr [], 0)
   \<and> get_bus_data_run (sample_env False (Inr (VList [stop_101])) (Inr (VList [arrival_A10]))
       (Inr (VList [route_A10])) (Inr (VList [position_V1]))) (VList [stop_101, VInt 7]) 0
     = (None, ([], 0), 0)"
proof -
  have "\<not> oasa_initialised (sample_env False (Inr (VList [stop_101]))
      (Inr (VList [arrival_A10])) (Inr (VList [route_A10])) (Inr (VList [position_V1])))"
    by (simp add: sample_env_def)
  then show ?thesis by (rule join_without_provider)
qed

text \<open>
  Claim C9. The join of the empty list of stops is the empty list, and a turn of the
  loop in which discovery returns the empty list publishes it and adds one to
  \<open>successful_updates\<close>, leaving \<open>failed_updates\<close> as it was.
\<close>

theorem empty_discovery_is_success:
  "get_bus_data env (VList []) w = (Inr [], w)
   \<and> (time_time env w = (t0, w0)
        \<and> get_stops env DEFAULT_LOCATION_lat DEFAULT_LOCATION_lng w0 = (Inr (VList []), w1)
      \<longrightarrow> successful_updates (stats (fst (update_cache_cycle env c w)))
            = successful_updates (stats c) + 1
          \<and> failed_updates (stats (fst (update_cache_cycle env c w))) = failed_updates (stats c)
          \<and> stops (fst (update_cache_cycle env c w)) = VList []
          \<and> buses (fst (update_cache_cycle env c w)) = [])"
proof -
  have "successful_updates (stats (fst (update_cache_cycle env c w)))
            = successful_updates (stats c) + 1
          \<and> failed_updates (stats (fst (update_cache_cycle env c w))) = failed_updates (stats c)
          \<and> stops (fst (update_cache_cycle env c w)) = VList []
          \<and> buses (fst (update_cache_cycle env c w)) = []"
    if a: "time_time env w = (t0, w0)"
      and b: "get_stops env DEFAULT_LOCATION_lat DEFAULT_LOCATION_lng w0 = (Inr (VList []), w1)"
  proof -
    obtain t_update w3 where d: "time_time env w1 = (t_update, w3)" by (cases "time_time env w1")
    obtain t_uptime w4 where e: "time_time env w3 = (t_uptime, w4)" by (cases "time_time env w3")
    obtain t_end w5 where f: "time_time env w4 = (t_end, w5)" by (cases "time_time env w4")
    have "update_cache_try env c w = (None, publish env c (VList []) [] t_update t_uptime, w5)"
      using update_cache_try_published [OF a b get_bus_data_no_stops d e f] .
    then show ?thesis by (simp add: update_cache_cycle_def publish_def)
  qed
  then show ?thesis using get_bus_data_no_stops [of env w] by blast
qed

theorem empty_discovery_is_success_witness:
  "get_bus_data (sample_env True (Inr (VList [])) timeout timeout timeout) (VList []) 0 = (Inr [], 0)
   \<and> successful_updates (stats (fst (update_cache_cycle
        (sample_env True (Inr (VList [])) timeout timeout timeout) previous_cache 0))) = 2
   \<and> failed_updates (stats (fst (update_cache_cycle
        (sample_env True (Inr (VList [])) timeout timeout timeout) previous_cache 0))) = 0
   \<and> stops (fst (update_cache_cycle
        (sample_env True (Inr (VList [])) timeout timeout timeout) previous_cache 0)) = VList []
   \<and> buses (fst (update_cache_cycle
        (sample_env True (Inr (VList [])) timeout timeout timeout) previous_cache 0)) = []"
proof -
  have "time_time (sample_env True (Inr (VList [])) timeout timeout timeout) 0 = (0, 1)
     \<and> get_stops (sample_env True (Inr (VList [])) timeout timeout timeout)
          DEFAULT_LOCATION_lat DEFAULT_LOCATION_lng 1 = (Inr (VList []), 2)"
    by (simp add: sample_env_def get_stops_def get_stops_try_def py_bind_def)
  then show ?thesis
    using empty_discovery_is_success [of "sample_env True (Inr (VList [])) timeout timeout timeout"
        0 0 1 2 previous_cache]
    by (simp add: previous_cache_def)
qed

text \<open>
  Claim C6. When discovery followed by the join raises during a turn of the loop, the
  fields \<open>stops\<close>, \<open>buses\<close> and \<open>last_update\<close> of the cache are after the turn what they
  were before it, and \<open>failed_updates\<close> is one more (\<open>successful_updates\<close> is unchanged).
\<close>

theorem failed_refresh_keeps_snapshot:
  assumes "time_time env w = (t0, w0)"
    and "discovery_and_join env w0 = (Inl e, w2)"
  shows "stops (fst (update_cache_cycle env c w)) = stops c
     \<and> buses (fst (update_cache_cycle env c w)) = buses c
     \<and> last_update (fst (update_cache_cycle env c w)) = last_update c
     \<and> failed_updates (stats (fst (update_cache_cycle env c w))) = failed_updates (stats c) + 1
     \<and> successful_updates (stats (fst (update_cache_cycle env c w))) = successful_updates (stats c)"
  using assms
  by (simp add: update_cache_cycle_def update_cache_try_def bump_total_def bump_failed_def)

theorem failed_refresh_keeps_snapshot_witness:
  "stops (fst (update_cache_cycle
       (sample_env True (Inr (VList [stop_without_id])) timeout timeout timeout) previous_cache 0))
     = VList [stop_101]
   \<and> buses (fst (update_cache_cycle
       (sample_env True (Inr (VList [stop_without_id])) timeout timeout timeout) previous_cache 0))
     = []
   \<and> last_update (fst (update_cache_cycle
       (sample_env True (Inr (VList [stop_without_id])) timeout timeout timeout) previous_cache 0))
     = 5
   \<and> failed_updates (stats (fst (update_cache_cycle
       (sample_env True (Inr (VList [stop_without_id])) timeout timeout timeout) previous_cache 0)))
     = 1
   \<and> successful_updates (stats (fst (update_cache_cycle
       (sample_env True (Inr (VList [stop_without_id])) timeout timeout timeout) previous_cache 0)))
     = 1"
proof -
  have a: "time_time (sample_env True (Inr (VList [stop_without_id])) timeout timeout timeout) 0
      = (0, 1)"
    by (simp add: sample_env_def)
  have b: "discovery_and_join
      (sample_env True (Inr (VList [stop_without_id])) timeout timeout timeout) 1
      = (Inl KeyError, 2)"
    by (simp add: sample_env_def discovery_and_join_def get_stops_def get_stops_try_def
        py_bind_def get_bus_data_def get_bus_data_run_def process_stop_def log_and_count_def
        stop_without_id_def)
  show ?thesis
    using failed_refresh_keeps_snapshot [OF a b, of previous_cache]
    by (simp add: previous_cache_def)
qed

text \<open>
  Claim C7, as stated, fails: when the discovery call raises, \<open>get_stops\<close> catches the
  exception and returns the empty list, so the turn is a successful one that replaces
  the previous snapshot by an empty one. Here the previous cache holds one stop.
\<close>

theorem failed_discovery_counterexample:
  "stops previous_cache = VList [stop_101]
   \<and> stops (fst (update_cache_cycle (sample_env True timeout timeout timeout timeout)
        previous_cache 0)) = VList []
   \<and> last_update previous_cache = 5
   \<and> last_update (fst (update_cache_cycle (sample_env True timeout timeout timeout timeout)
        previous_cache 0)) = 2
   \<and> failed_updates (stats previous_cache) = 0
   \<and> failed_updates (stats (fst (update_cache_cycle (sample_env True timeout timeout timeout timeout)
        previous_cache 0))) = 0
   \<and> successful_updates (stats previous_cache) = 1
   \<and> successful_updates (stats (fst (update_cache_cycle
        (sample_env True timeout timeout timeout timeout) previous_cache 0))) = 2"
  by (simp add: previous_cache_def sample_env_def timeout_def update_cache_cycle_def
      update_cache_try_def discovery_and_join_def get_stops_def get_stops_try_def
      get_bus_data_def get_bus_data_run_def bump_total_def bump_successful_def Let_def)

text \<open>
  Claim C7, amended. When the discovery call raises on an initialised provider, the
  turn publishes the empty snapshot: \<open>stops\<close> and \<open>buses\<close> are empty, \<open>last_update\<close> is
  the time read after the join, \<open>successful_updates\<close> is one more and \<open>failed_updates\<close> is
  unchanged.
\<close>

theorem failed_discovery_publishes_empty:
  assumes "oasa_initialised env"
    and "time_time env w = (t0, w0)"
    and "oasa_get_closest_stops env DEFAULT_LOCATION_lat DEFAULT_LOCATION_lng w0 = (Inl e, w1)"
    and "time_time env w1 = (t_update, w2)"
  shows "stops (fst (update_cache_cycle env c w)) = VList []
     \<and> buses (fst (update_cache_cycle env c w)) = []
     \<and> last_update (fst (update_cache_cycle env c w)) = t_update
     \<and> successful_updates (stats (fst (update_cache_cycle env c w)))
         = successful_updates (stats c) + 1
     \<and> failed_updates (stats (fst (update_cache_cycle env c w))) = failed_updates (stats c)"
proof -
  have b: "get_stops env DEFAULT_LOCATION_lat DEFAULT_LOCATION_lng w0 = (Inr (VList []), w1)"
    using assms(1,3) by (simp add: get_stops_def get_stops_try_def)
  obtain t_uptime w4 where e: "time_time env w2 = (t_uptime, w4)" by (cases "time_time env w2")
  obtain t_end w5 where f: "time_time env w4 = (t_end, w5)" by (cases "time_time env w4")
  have "update_cache_try env c w = (None, publish env c (VList []) [] t_update t_uptime, w5)"
    using update_cache_try_published [OF assms(2) b get_bus_data_no_stops assms(4) e f] .
  then show ?thesis by (simp add: update_cache_cycle_def publish_def)
qed

theorem failed_discovery_publishes_empty_witness:
  "stops (fst (update_cache_cycle (sample_env True timeout (Inr VNone) timeout timeout)
        previous_cache 0)) = VList []
   \<and> buses (fst (update_cache_cycle (sample_env True timeout (Inr VNone) timeout timeout)
        previous_cache 0)) = []
   \<and> last_update (fst (update_cache_cycle (sample_env True timeout (Inr VNone) timeout timeout)
        previous_cache 0)) = 2
   \<and> successful_updates (stats (fst (update_cache_cycle
        (sample_env True timeout (Inr VNone) timeout timeout) previous_cache 0))) = 2
   \<and> failed_updates (stats (fst (update_cache_cycle
        (sample_env True timeout (Inr VNone) timeout timeout) previous_cache 0))) = 0"
proof -
  have a: "oasa_initialised (sample_env True timeout (Inr VNone) timeout timeout)"
    by (simp add: sample_env_def)
  have b: "time_time (sample_env True timeout (Inr VNone) timeout timeout) 0 = (0, 1)"
    by (simp add: sample_env_def)
  have c: "oasa_get_closest_stops (sample_env True timeout (Inr VNone) timeout timeout)
      DEFAULT_LOCATION_lat DEFAULT_LOCATION_lng 1 = (Inl (OtherException ''timeout''), 2)"
    by (simp add: sample_env_def timeout_def)
  have d: "time_time (sample_env True timeout (Inr VNone) timeout timeout) 2 = (2, 3)"
    by (simp add: sample_env_def)
  show ?thesis
    using failed_discovery_publishes_empty [OF a b c d, of previous_cache]
    by (simp add: previous_cache_def)
qed

section \<open>The join, one arrival at a time\<close>

lemma match_route_SomeD:
  assumes "match_route stop_info arrival route_info = Inr (Some bus_info)"
  shows "same_route_code arrival route_info"
    and "\<exists>code. py_getitem arrival ''route_code'' = Inr code"
    and "\<exists>stop_id. py_getitem stop_info ''StopID'' = Inr stop_id"
  using assms
  by (auto simp: match_route_def py_bind_def same_route_code_def
      split: sum.splits if_splits pyval.splits)

lemma bus_position_SomeD:
  assumes "bus_position env bus_location = Inr (Some pos)"
  shows "\<exists>p ps. bus_location = VList (p # ps) \<and> bus_position env (VList [p]) = Inr (Some pos)"
proof (cases bus_location)
  case (VList xs)
  with assms show ?thesis
    by (cases xs) (auto simp: bus_position_def py_bind_def split: if_splits sum.splits)
next
  case (VStr s)
  with assms show ?thesis
    by (cases s) (auto simp: bus_position_def py_bind_def split: if_splits sum.splits)
qed (use assms in \<open>auto simp: bus_position_def py_bind_def split: if_splits sum.splits\<close>)

lemma locate_bus_SomeD:
  assumes "locate_bus env arrival bus_info w = (Inr (Some bus), w')"
  shows "built_from_first_position env arrival (VDict bus)"
proof -
  from assms obtain code where code: "py_getitem arrival ''route_code'' = Inr code"
    by (auto simp: locate_bus_def split: sum.splits)
  from assms code obtain bus_location w1 where
    call: "route_bus_location env (py_str env code) w = (Inr bus_location, w1)"
    by (auto simp: locate_bus_def split: sum.splits prod.splits)
  from assms code call obtain lat lng veh_no where
    pos: "bus_position env bus_location = Inr (Some (lat, lng, veh_no))"
    by (auto simp: locate_bus_def split: sum.splits prod.splits option.splits)
  from assms code call pos obtain now where
    bus: "bus = AList.update ''last_update'' (VStr now)
                  (AList.update ''vehicle_id'' veh_no
                  (AList.update ''lng'' (VFloat lng)
                  (AList.update ''lat'' (VFloat lat) bus_info)))"
    by (auto simp: locate_bus_def split: prod.splits)
  from bus_position_SomeD [OF pos] obtain p ps where
    first: "bus_location = VList (p # ps)"
      "bus_position env (VList [p]) = Inr (Some (lat, lng, veh_no))"
    by blast
  have "map_of bus ''lat'' = Some (VFloat lat)" "map_of bus ''lng'' = Some (VFloat lng)"
    "map_of bus ''vehicle_id'' = Some veh_no"
    by (simp_all add: bus update_conv')
  with code call first show ?thesis
    unfolding built_from_first_position_def by blast
qed

lemma process_route_emits:
  assumes "process_route env stop_info arrival route_info acc w = (x, acc', w')"
  shows "\<exists>new. fst acc' = fst acc @ new
           \<and> length new \<le> (if same_route_code arrival route_info then 1 else 0)
           \<and> (\<forall>bus\<in>set new. built_from_first_position env arrival bus)"
proof (cases "match_route stop_info arrival route_info")
  case (Inl e)
  with assms show ?thesis by (auto simp: process_route_def)
next
  case (Inr m)
  show ?thesis
  proof (cases m)
    case None
    with Inr assms show ?thesis by (auto simp: process_route_def)
  next
    case (Some bus_info)
    with Inr have same: "same_route_code arrival route_info"
      using match_route_SomeD(1) by blast
    obtain r w1 where loc: "locate_bus env arrival bus_info w = (r, w1)"
      by (cases "locate_bus env arrival bus_info w")
    show ?thesis
    proof (cases r)
      case (Inl e)
      with loc Some Inr assms have "fst acc' = fst acc"
        by (auto simp: process_route_def count_error_def split: sum.splits)
      then show ?thesis by simp
    next
      case found: (Inr b)
      show ?thesis
      proof (cases b)
        case None
        with found loc Some Inr assms have "fst acc' = fst acc"
          by (auto simp: process_route_def)
        then show ?thesis by simp
      next
        case (Some bus)
        with found loc have "locate_bus env arrival bus_info w = (Inr (Some bus), w1)"
          by simp
        then have "built_from_first_position env arrival (VDict bus)"
          by (rule locate_bus_SomeD)
        moreover from Some found loc \<open>m = Some bus_info\<close> Inr assms
        have "fst acc' = fst acc @ [VDict bus]"
          by (auto simp: process_route_def)
        ultimately show ?thesis using same by simp
      qed
    qed
  qed
qed

lemma process_routes_emits:
  assumes "process_routes env stop_info arrival entries acc w = (x, acc', w')"
  shows "\<exists>new. fst acc' = fst acc @ new
           \<and> length new \<le> length (filter (same_route_code arrival) entries)
           \<and> (\<forall>bus\<in>set new. built_from_first_position env arrival bus)"
  using assms
proof (induction entries arbitrary: acc w)
  case Nil
  then show ?case by simp
next
  case (Cons route_info rest)
  obtain y acc1 w1 where one: "process_route env stop_info arrival route_info acc w = (y, acc1, w1)"
    by (cases "process_route env stop_info arrival route_info acc w")
  from process_route_emits [OF one] obtain new1 where new1:
    "fst acc1 = fst acc @ new1"
    "length new1 \<le> (if same_route_code arrival route_info then 1 else 0)"
    "\<forall>bus\<in>set new1. built_from_first_position env arrival bus"
    by blast
  show ?case
  proof (cases y)
    case (Some e)
    with one Cons.prems have "acc' = acc1" by simp
    with new1 show ?thesis by (auto split: if_splits)
  next
    case None
    with one Cons.prems have "process_routes env stop_info arrival rest acc1 w1 = (x, acc', w')"
      by simp
    from Cons.IH [OF this] obtain new2 where new2:
      "fst acc' = fst acc1 @ new2"
      "length new2 \<le> length (filter (same_route_code arrival) rest)"
      "\<forall>bus\<in>set new2. built_from_first_position env arrival bus"
      by blast
    have "fst acc' = fst acc @ (new1 @ new2)" using new1(1) new2(1) by simp
    moreover have "length (new1 @ new2)
        \<le> length (filter (same_route_code arrival) (route_info # rest))"
      using new1(2) new2(2) by (simp split: if_splits)
    moreover have "\<forall>bus\<in>set (new1 @ new2). built_from_first_position env arrival bus"
      using new1(3) new2(3) by auto
    ultimately show ?thesis by blast
  qed
qed

lemma log_and_count_keeps_buses:
  "log_and_count stop_info acc w = (x, acc', w') \<Longrightarrow> fst acc' = fst acc"
  by (auto simp: log_and_count_def count_error_def split: sum.splits)

lemma process_arrival_emits:
  assumes "process_arrival env stop_info stopcode arrival acc w = (x, acc', w')"
  shows "\<exists>new. fst acc' = fst acc @ new
           \<and> length new
               \<le> length (filter (same_route_code arrival) (route_listing env stopcode w))
           \<and> (\<forall>bus\<in>set new. built_from_first_position env arrival bus)"
proof -
  obtain r w1 where call: "oasa_get_web_routes_for_stop env stopcode w = (r, w1)"
    by (cases "oasa_get_web_routes_for_stop env stopcode w")
  show ?thesis
  proof (cases r)
    case (Inl e)
    with call assms have "log_and_count stop_info acc w1 = (x, acc', w')"
      by (simp add: process_arrival_def py_str_def)
    then have "fst acc' = fst acc" by (rule log_and_count_keeps_buses)
    then show ?thesis by simp
  next
    case (Inr routes)
    show ?thesis
    proof (cases "py_iter routes")
      case (Inl e)
      with Inr call assms have "log_and_count stop_info acc w1 = (x, acc', w')"
        by (simp add: process_arrival_def py_str_def)
      then have "fst acc' = fst acc" by (rule log_and_count_keeps_buses)
      then show ?thesis by simp
    next
      case entries: (Inr entries)
      obtain y acc1 w2 where
        loop: "process_routes env stop_info arrival entries acc w1 = (y, acc1, w2)"
        by (cases "process_routes env stop_info arrival entries acc w1")
      from process_routes_emits [OF loop] obtain new where new:
        "fst acc1 = fst acc @ new"
        "length new \<le> length (filter (same_route_code arrival) entries)"
        "\<forall>bus\<in>set new. built_from_first_position env arrival bus"
        by blast
      have "fst acc' = fst acc1"
      proof (cases y)
        case None
        with loop entries Inr call assms show ?thesis
          by (simp add: process_arrival_def py_str_def)
      next
        case (Some e)
        with loop entries Inr call assms
        have "log_and_count stop_info acc1 w2 = (x, acc', w')"
          by (simp add: process_arrival_def py_str_def)
        then show ?thesis by (rule log_and_count_keeps_buses)
      qed
      moreover have "route_listing env stopcode w = entries"
        using call Inr entries by (simp add: route_listing_def)
      ultimately show ?thesis using new by auto
    qed
  qed
qed

text \<open>The definitions to unfold when the join is run on a sample provider.\<close>

lemmas run_defs =
  sample_env_def stop_101_def arrival_A10_def route_A10_def position_V1_def sample_float_def
  get_bus_data_def get_bus_data_run_def process_stop_def process_arrival_def process_route_def
  match_route_def locate_bus_def bus_position_def py_bind_def py_str_def count_error_def
  log_and_count_def

text \<open>
  Claim C4, as stated, fails: the loop over the route listing has no \<open>break\<close>. With the
  route code of the arrival twice in the listing, the single arrival of the single
  stop yields two sightings.
\<close>

theorem duplicate_routes_counterexample:
  "get_bus_data duplicate_env (VList [stop_101]) 0 = (Inr [sighting_A10, sighting_A10], 6)"
  by (simp add: duplicate_env_def sighting_A10_def run_defs)

lemma match_route_comparable:
  assumes "comparable route_info" and "copied_fields_present stop_info arrival"
  shows "if same_route_code arrival route_info
         then \<exists>bus_info. match_route stop_info arrival route_info = Inr (Some bus_info)
         else match_route stop_info arrival route_info = Inr None"
  using assms
  by (cases route_info)
    (auto simp: comparable_def copied_fields_present_def same_route_code_def match_route_def
      py_bind_def split: sum.splits option.splits)

lemma locate_bus_always_located:
  assumes "always_located env arrival"
  shows "\<exists>bus w'. locate_bus env arrival bus_info w = (Inr (Some bus), w')"
proof -
  from assms obtain code bus_location w1 pos where
    "py_getitem arrival ''route_code'' = Inr code"
    "route_bus_location env (py_str env code) w = (Inr bus_location, w1)"
    "bus_position env bus_location = Inr (Some pos)"
    unfolding always_located_def by blast
  then show ?thesis
    by (cases pos; cases "strftime_now env w1") (simp add: locate_bus_def)
qed

lemma process_route_keeps:
  assumes "comparable route_info" and "copied_fields_present stop_info arrival"
    and "always_located env arrival"
  shows "\<exists>new acc' w'. process_route env stop_info arrival route_info acc w = (None, acc', w')
           \<and> fst acc' = fst acc @ new \<and> snd acc' = snd acc
           \<and> length new = (if same_route_code arrival route_info then 1 else 0)"
proof (cases "same_route_code arrival route_info")
  case True
  with match_route_comparable [OF assms(1,2)] obtain bus_info where
    m: "match_route stop_info arrival route_info = Inr (Some bus_info)" by auto
  from locate_bus_always_located [OF assms(3)] obtain bus w' where
    "locate_bus env arrival bus_info w = (Inr (Some bus), w')" by blast
  with m have "process_route env stop_info arrival route_info acc w
      = (None, (fst acc @ [VDict bus], snd acc), w')"
    by (simp add: process_route_def)
  with True show ?thesis by simp
next
  case False
  with match_route_comparable [OF assms(1,2)]
  have "match_route stop_info arrival route_info = Inr None" by simp
  then have "process_route env stop_info arrival route_info acc w = (None, acc, w)"
    by (simp add: process_route_def)
  with False show ?thesis by simp
qed

lemma process_routes_keeps:
  assumes "\<forall>r\<in>set entries. comparable r" and "copied_fields_present stop_info arrival"
    and "always_located env arrival"
  shows "\<exists>new acc' w'. process_routes env stop_info arrival entries acc w = (None, acc', w')
           \<and> fst acc' = fst acc @ new \<and> snd acc' = snd acc
           \<and> length new = length (filter (same_route_code arrival) entries)"
  using assms(1)
proof (induction entries arbitrary: acc w)
  case Nil
  then show ?case by simp
next
  case (Cons route_info rest)
  then have "comparable route_info" by simp
  from process_route_keeps [OF this assms(2,3), of acc w] obtain new1 acc1 w1 where one:
    "process_route env stop_info arrival route_info acc w = (None, acc1, w1)"
    "fst acc1 = fst acc @ new1" "snd acc1 = snd acc"
    "length new1 = (if same_route_code arrival route_info then 1 else 0)"
    by blast
  from Cons have "\<forall>r\<in>set rest. comparable r" by simp
  from Cons.IH [OF this, of acc1 w1] obtain new2 acc2 w2 where more:
    "process_routes env stop_info arrival rest acc1 w1 = (None, acc2, w2)"
    "fst acc2 = fst acc1 @ new2" "snd acc2 = snd acc1"
    "length new2 = length (filter (same_route_code arrival) rest)"
    by blast
  have "process_routes env stop_info arrival (route_info # rest) acc w = (None, acc2, w2)"
    using one(1) more(1) by simp
  moreover have "fst acc2 = fst acc @ (new1 @ new2)" using one(2) more(2) by simp
  moreover have "snd acc2 = snd acc" using one(3) more(3) by simp
  moreover have "length (new1 @ new2)
      = length (filter (same_route_code arrival) (route_info # rest))"
    using one(4) more(4) by simp
  ultimately show ?case by blast
qed

lemma process_arrival_keeps:
  assumes "\<forall>r\<in>set (route_listing env stopcode w). comparable r"
    and "copied_fields_present stop_info arrival"
    and "always_located env arrival"
    and "process_arrival env stop_info stopcode arrival acc w = (x, acc', w')"
  shows "\<exists>new. fst acc' = fst acc @ new
           \<and> length new
               = length (filter (same_route_code arrival) (route_listing env stopcode w))"
proof -
  obtain r w1 where call: "oasa_get_web_routes_for_stop env stopcode w = (r, w1)"
    by (cases "oasa_get_web_routes_for_stop env stopcode w")
  show ?thesis
  proof (cases r)
    case (Inl e)
    with call assms(4) have "log_and_count stop_info acc w1 = (x, acc', w')"
      by (simp add: process_arrival_def py_str_def)
    then have "fst acc' = fst acc" by (rule log_and_count_keeps_buses)
    moreover have "route_listing env stopcode w = []"
      using call Inl by (simp add: route_listing_def)
    ultimately show ?thesis by simp
  next
    case (Inr routes)
    show ?thesis
    proof (cases "py_iter routes")
      case (Inl e)
      with Inr call assms(4) have "log_and_count stop_info acc w1 = (x, acc', w')"
        by (simp add: process_arrival_def py_str_def)
      then have "fst acc' = fst acc" by (rule log_and_count_keeps_buses)
      moreover have "route_listing env stopcode w = []"
        using call Inr Inl by (simp add: route_listing_def)
      ultimately show ?thesis by simp
    next
      case entries: (Inr entries)
      have listing: "route_listing env stopcode w = entries"
        using call Inr entries by (simp add: route_listing_def)
      with assms(1) have "\<forall>r\<in>set entries. comparable r" by simp
      from process_routes_keeps [OF this assms(2,3), of acc w1] obtain new acc1 w2 where loop:
        "process_routes env stop_info arrival entries acc w1 = (None, acc1, w2)"
        "fst acc1 = fst acc @ new"
        "length new = length (filter (same_route_code arrival) entries)"
        by blast
      have "acc' = acc1"
        using loop(1) entries Inr call assms(4) by (simp add: process_arrival_def py_str_def)
      with loop listing show ?thesis by auto
    qed
  qed
qed

text \<open>
  Claim C4, amended. For every arrival processed by the join, the entries of the stop's
  route listing that carry the arrival's route code are all kept, not only the first.
  When every entry of the listing can be compared, the stop and the arrival carry the
  fields the join copies, and every vehicle-location call for the route returns a
  non-empty position list whose first entry can be read, the sightings appended for the
  arrival are exactly as many as the matching entries (two for a route code that is
  twice in the listing). In every case they are at most as many as the matching
  entries, so at most one when the route code occurs at most once, and each of them is
  built from the first entry of a non-empty vehicle-position list.
\<close>

theorem every_matching_route_is_kept:
  assumes "process_arrival env stop_info stopcode arrival acc w = (x, acc', w')"
  shows "\<exists>new. fst acc' = fst acc @ new
           \<and> length new
               \<le> length (filter (same_route_code arrival) (route_listing env stopcode w))
           \<and> (\<forall>bus\<in>set new. built_from_first_position env arrival bus)
           \<and> ((\<forall>r\<in>set (route_listing env stopcode w). comparable r)
                \<and> copied_fields_present stop_info arrival \<and> always_located env arrival
              \<longrightarrow> length new
                    = length (filter (same_route_code arrival) (route_listing env stopcode w)))"
proof -
  from process_arrival_emits [OF assms] obtain new where new:
    "fst acc' = fst acc @ new"
    "length new \<le> length (filter (same_route_code arrival) (route_listing env stopcode w))"
    "\<forall>bus\<in>set new. built_from_first_position env arrival bus"
    by blast
  have "length new = length (filter (same_route_code arrival) (route_listing env stopcode w))"
    if "\<forall>r\<in>set (route_listing env stopcode w). comparable r"
      and "copied_fields_present stop_info arrival" and "always_located env arrival"
  proof -
    from process_arrival_keeps [OF that assms] obtain new' where
      "fst acc' = fst acc @ new'"
      "length new' = length (filter (same_route_code arrival) (route_listing env stopcode w))"
      by blast
    with new(1) show ?thesis by simp
  qed
  with new show ?thesis by blast
qed

theorem every_matching_route_is_kept_witness:
  "process_arrival duplicate_env stop_101 ''101'' arrival_A10 ([], 0) 0
     = (None, ([sighting_A10, sighting_A10], 0), 5)
   \<and> length (filter (same_route_code arrival_A10) (route_listing duplicate_env ''101'' 0)) = 2
   \<and> built_from_first_position duplicate_env arrival_A10 sighting_A10"
proof -
  have run: "process_arrival duplicate_env stop_101 ''101'' arrival_A10 ([], 0) 0
      = (None, ([sighting_A10, sighting_A10], 0), 5)"
    by (simp add: duplicate_env_def sighting_A10_def run_defs)
  have listing: "route_listing duplicate_env ''101'' 0 = [route_A10, route_A10]"
    by (simp add: duplicate_env_def route_listing_def sample_env_def)
  have two: "length (filter (same_route_code arrival_A10) [route_A10, route_A10]) = 2"
    by (simp add: same_route_code_def route_A10_def arrival_A10_def)
  have cmp: "\<forall>r\<in>set (route_listing duplicate_env ''101'' 0). comparable r"
    by (simp add: listing comparable_def route_A10_def)
  have fields: "copied_fields_present stop_101 arrival_A10"
    by (simp add: copied_fields_present_def stop_101_def arrival_A10_def)
  have code: "py_getitem arrival_A10 ''route_code'' = Inr (VStr ''A10'')"
    by (simp add: arrival_A10_def)
  have calls: "\<forall>w. \<exists>bus_location w' pos.
      route_bus_location duplicate_env (py_str duplicate_env (VStr ''A10'')) w
        = (Inr bus_location, w')
      \<and> bus_position duplicate_env bus_location = Inr (Some pos)"
  proof
    fix w :: nat
    have "route_bus_location duplicate_env (py_str duplicate_env (VStr ''A10'')) w
          = (Inr (VList [position_V1]), Suc w)
        \<and> bus_position duplicate_env (VList [position_V1])
          = Inr (Some (38.01, 23.70, VStr ''V1''))"
      by (simp add: duplicate_env_def sample_env_def py_str_def position_V1_def
          bus_position_def py_bind_def sample_float_def)
    then show "\<exists>bus_location w' pos.
        route_bus_location duplicate_env (py_str duplicate_env (VStr ''A10'')) w
          = (Inr bus_location, w')
        \<and> bus_position duplicate_env bus_location = Inr (Some pos)"
      by blast
  qed
  have located: "always_located duplicate_env arrival_A10"
    unfolding always_located_def using code calls by blast
  from every_matching_route_is_kept [OF run] cmp fields located obtain new where
    "fst ([sighting_A10, sighting_A10], 0::int) = fst ([], 0::int) @ new"
    "\<forall>bus\<in>set new. built_from_first_position duplicate_env arrival_A10 bus"
    "length new
       = length (filter (same_route_code arrival_A10) (route_listing duplicate_env ''101'' 0))"
    by blast
  then have "built_from_first_position duplicate_env arrival_A10 sighting_A10"
    "length (filter (same_route_code arrival_A10) (route_listing duplicate_env ''101'' 0)) = 2"
    by auto
  with run show ?thesis by blast
qed

section \<open>Isolation of failures in the join\<close>

lemma process_routes_no_match:
  assumes "\<forall>r\<in>set entries. match_route stop_info arrival r = Inr None"
  shows "process_routes env stop_info arrival entries acc w = (None, acc, w)"
  using assms by (induction entries) (simp_all add: process_route_def)

lemma process_routes_append:
  "process_routes env stop_info arrival (xs @ ys) acc w =
     (case process_routes env stop_info arrival xs acc w of
        (Some e, acc', w') \<Rightarrow> (Some e, acc', w')
      | (None, acc', w') \<Rightarrow> process_routes env stop_info arrival ys acc' w')"
  by (induction xs arbitrary: acc w) (auto split: prod.splits option.splits)

lemma process_route_location_fails:
  assumes "match_route stop_info arrival route_info = Inr (Some bus_info)"
    and "py_getitem arrival ''route_code'' = Inr code"
    and "route_bus_location env (py_str env code) w = (Inl e, w')"
  shows "process_route env stop_info arrival route_info acc w = (None, count_error acc, w')"
  using assms by (simp add: process_route_def locate_bus_def)

lemma log_and_count_with_id:
  assumes "py_getitem stop_info ''StopID'' = Inr stop_id"
  shows "log_and_count stop_info acc w = (None, count_error acc, w)"
  using assms by (simp add: log_and_count_def)

lemma process_arrival_with_id:
  assumes "py_getitem stop_info ''StopID'' = Inr stop_id"
  shows "fst (process_arrival env stop_info stopcode arrival acc w) = None"
  using assms
  by (simp add: process_arrival_def log_and_count_with_id
      split: prod.splits sum.splits option.splits)

lemma process_arrivals_with_id:
  assumes "py_getitem stop_info ''StopID'' = Inr stop_id"
  shows "fst (process_arrivals env stop_info stopcode arrivals acc w) = None"
proof (induction arrivals arbitrary: acc w)
  case Nil
  then show ?case by simp
next
  case (Cons arrival rest)
  obtain x acc1 w1 where
    one: "process_arrival env stop_info stopcode arrival acc w = (x, acc1, w1)"
    by (cases "process_arrival env stop_info stopcode arrival acc w")
  then have "x = None"
    using process_arrival_with_id [OF assms, of env stopcode arrival acc w] by simp
  with one show ?case using Cons.IH by simp
qed

lemma process_stop_with_id:
  assumes "py_getitem stop_info ''StopID'' = Inr stop_id"
  shows "fst (process_stop env stop_info acc w) = None"
proof -
  have "x = None"
    if "process_arrivals env stop_info stopcode arrivals acc w1 = (x, acc', w')"
    for x stopcode arrivals w1 acc' w'
    using that process_arrivals_with_id [OF assms, of env stopcode arrivals acc w1] by simp
  then show ?thesis
    using assms
    by (auto simp: process_stop_def log_and_count_with_id py_bind_def
        split: prod.splits sum.splits option.splits)
qed

lemma process_stops_step:
  assumes "fst (process_stop env stop_info acc w) = None"
  shows "process_stops env (stop_info # others) acc w =
     process_stops env others (fst (snd (process_stop env stop_info acc w)))
       (snd (snd (process_stop env stop_info acc w)))"
  using assms by (cases "process_stop env stop_info acc w") auto

text \<open>
  Claim C5, as stated, fails. With the route code of the arrival twice in the listing
  and a vehicle-location call that raises once and then answers, one error is counted
  and yet the arrival is not omitted: the second entry yields its sighting. With the
  route code once in the listing, followed by an entry without \<open>RouteCode\<close>, the
  failing vehicle-location call is counted and the loop over the listing then raises
  on the next entry, which is counted as well: two errors for the one arrival.
\<close>

theorem location_failure_counterexample:
  "get_bus_data_run flaky_env (VList [stop_101]) 0 = (None, ([sighting_A10], 1), 5)
   \<and> get_bus_data_run unreadable_entry_env (VList [stop_101]) 0 = (None, ([], 2), 3)"
  by (simp add: flaky_env_def duplicate_env_def unreadable_entry_env_def timeout_def
      sighting_A10_def run_defs)

text \<open>
  Claim C5, amended. Let the route listing of the stop be fetched, let exactly one of
  its entries match the arrival (its route code is the arrival's, and the arrival and
  the stop carry the fields the join copies), let every other entry, before and after
  it, be compared without raising and not match, and let the vehicle-location call for
  the arrival raise. Then the arrival appends nothing and adds exactly one to the count
  of errors, without raising; the arrivals after it in the same stop are processed from
  there; processing the stop does not raise, so the stops after it are processed as
  well. When this is the only arrival of the only stop, the join returns the empty list
  with one error counted, and a turn of the refresh loop whose discovery returned that
  stop adds one to \<open>successful_updates\<close> and leaves \<open>failed_updates\<close> as it was.
\<close>

theorem location_failure_is_isolated:
  assumes routes: "oasa_get_web_routes_for_stop env stopcode w = (Inr routes, w1)"
    and listing: "py_iter routes = Inr (before @ route_info # after)"
    and no_other: "\<forall>r\<in>set before \<union> set after. match_route stop_info arrival r = Inr None"
    and matches: "match_route stop_info arrival route_info = Inr (Some bus_info)"
    and code: "py_getitem arrival ''route_code'' = Inr code"
    and fails: "route_bus_location env (py_str env code) w1 = (Inl e, w2)"
  shows "process_arrival env stop_info stopcode arrival acc w = (None, (fst acc, snd acc + 1), w2)
     \<and> process_arrivals env stop_info stopcode (arrival # rest) acc w
         = process_arrivals env stop_info stopcode rest (fst acc, snd acc + 1) w2
     \<and> fst (process_stop env stop_info acc0 w0) = None
     \<and> process_stops env (stop_info # others) acc0 w0
         = process_stops env others (fst (snd (process_stop env stop_info acc0 w0)))
             (snd (snd (process_stop env stop_info acc0 w0)))
     \<and> (oasa_initialised env \<and> py_getitem stop_info ''StopID'' = Inr stop_id
          \<and> py_str env stop_id = stopcode
          \<and> stop_arrivals env stopcode w0 = (Inr (VList [arrival]), w)
        \<longrightarrow> get_bus_data_run env (VList [stop_info]) w0 = (None, ([], 1), w2)
            \<and> get_bus_data env (VList [stop_info]) w0 = (Inr [], w2)
            \<and> (time_time env wa = (t0, wb)
                  \<and> get_stops env DEFAULT_LOCATION_lat DEFAULT_LOCATION_lng wb
                      = (Inr (VList [stop_info]), w0)
                \<longrightarrow> successful_updates (stats (fst (update_cache_cycle env c wa)))
                      = successful_updates (stats c) + 1
                    \<and> failed_updates (stats (fst (update_cache_cycle env c wa)))
                      = failed_updates (stats c)
                    \<and> buses (fst (update_cache_cycle env c wa)) = []))"
proof -
  have before: "process_routes env stop_info arrival before acc w1 = (None, acc, w1)"
    using no_other by (intro process_routes_no_match) simp
  have after: "process_routes env stop_info arrival after (count_error acc) w2
      = (None, count_error acc, w2)"
    using no_other by (intro process_routes_no_match) simp
  have one: "process_route env stop_info arrival route_info acc w1 = (None, count_error acc, w2)"
    using matches code fails by (rule process_route_location_fails)
  have loop: "process_routes env stop_info arrival (before @ route_info # after) acc w1
      = (None, count_error acc, w2)"
    by (simp add: process_routes_append before one after)
  have arrival: "process_arrival env stop_info stopcode arrival acc w
      = (None, (fst acc, snd acc + 1), w2)"
    using routes listing loop by (simp add: process_arrival_def py_str_def count_error_def)
  have arrivals: "process_arrivals env stop_info stopcode (arrival # rest) acc w
      = process_arrivals env stop_info stopcode rest (fst acc, snd acc + 1) w2"
    by (simp add: arrival)
  obtain some_id where has_id: "py_getitem stop_info ''StopID'' = Inr some_id"
    using match_route_SomeD(3) [OF matches] by blast
  have stop: "fst (process_stop env stop_info acc0 w0) = None"
    using has_id by (rule process_stop_with_id)
  have scenario: "get_bus_data_run env (VList [stop_info]) w0 = (None, ([], 1), w2)
      \<and> get_bus_data env (VList [stop_info]) w0 = (Inr [], w2)
      \<and> (time_time env wa = (t0, wb)
            \<and> get_stops env DEFAULT_LOCATION_lat DEFAULT_LOCATION_lng wb
                = (Inr (VList [stop_info]), w0)
          \<longrightarrow> successful_updates (stats (fst (update_cache_cycle env c wa)))
                = successful_updates (stats c) + 1
              \<and> failed_updates (stats (fst (update_cache_cycle env c wa)))
                = failed_updates (stats c)
              \<and> buses (fst (update_cache_cycle env c wa)) = [])"
    if init: "oasa_initialised env"
      and id: "py_getitem stop_info ''StopID'' = Inr stop_id"
      and str: "py_str env stop_id = stopcode"
      and arr: "stop_arrivals env stopcode w0 = (Inr (VList [arrival]), w)"
  proof -
    have "process_arrival env stop_info stopcode arrival ([], 0) w = (None, ([], 1), w2)"
      using routes listing
        process_routes_append [of env stop_info arrival before "route_info # after" "([], 0)" w1]
        process_routes_no_match [of before stop_info arrival env "([], 0)" w1]
        process_routes_no_match [of after stop_info arrival env "([], 1)" w2]
        process_route_location_fails [OF matches code fails, of "([], 0)"]
        no_other
      by (simp add: process_arrival_def py_str_def count_error_def)
    then have run: "get_bus_data_run env (VList [stop_info]) w0 = (None, ([], 1), w2)"
      using init id str arr by (simp add: get_bus_data_run_def process_stop_def)
    then have join: "get_bus_data env (VList [stop_info]) w0 = (Inr [], w2)"
      by (simp add: get_bus_data_def)
    have "successful_updates (stats (fst (update_cache_cycle env c wa)))
            = successful_updates (stats c) + 1
          \<and> failed_updates (stats (fst (update_cache_cycle env c wa))) = failed_updates (stats c)
          \<and> buses (fst (update_cache_cycle env c wa)) = []"
      if a: "time_time env wa = (t0, wb)"
        and b: "get_stops env DEFAULT_LOCATION_lat DEFAULT_LOCATION_lng wb
                  = (Inr (VList [stop_info]), w0)"
    proof -
      obtain t_update w3 where d: "time_time env w2 = (t_update, w3)"
        by (cases "time_time env w2")
      obtain t_uptime w4 where e: "time_time env w3 = (t_uptime, w4)"
        by (cases "time_time env w3")
      obtain t_end w5 where f: "time_time env w4 = (t_end, w5)"
        by (cases "time_time env w4")
      have "update_cache_try env c wa
          = (None, publish env c (VList [stop_info]) [] t_update t_uptime, w5)"
        using update_cache_try_published [OF a b join d e f] .
      then show ?thesis by (simp add: update_cache_cycle_def publish_def)
    qed
    with run join show ?thesis by blast
  qed
  show ?thesis
    using arrival arrivals stop process_stops_step [OF stop] scenario by blast
qed

theorem location_failure_is_isolated_witness:
  "process_arrival failing_env stop_101 ''101'' arrival_A10 ([], 0) 3 = (None, ([], 1), 5)
   \<and> get_bus_data_run failing_env (VList [stop_101]) 2 = (None, ([], 1), 5)
   \<and> get_bus_data failing_env (VList [stop_101]) 2 = (Inr [], 5)
   \<and> successful_updates (stats (fst (update_cache_cycle failing_env previous_cache 0))) = 2
   \<and> failed_updates (stats (fst (update_cache_cycle failing_env previous_cache 0))) = 0
   \<and> buses (fst (update_cache_cycle failing_env previous_cache 0)) = []"
proof -
  have routes: "oasa_get_web_routes_for_stop failing_env ''101'' 3
      = (Inr (VList [route_B20, route_A10]), 4)"
    by (simp add: failing_env_def sample_env_def)
  have listing: "py_iter (VList [route_B20, route_A10]) = Inr ([route_B20] @ route_A10 # [])"
    by simp
  have no_other: "\<forall>r\<in>set [route_B20] \<union> set []. match_route stop_101 arrival_A10 r = Inr None"
    by (simp add: match_route_def py_bind_def route_B20_def arrival_A10_def)
  have matches: "match_route stop_101 arrival_A10 route_A10 =
      Inr (Some [(''RouteCode'', VStr ''A10''), (''LineID'', VStr ''10''),
                 (''time_left'', VStr ''5''), (''stop_name'', VStr ''Main St''),
                 (''stop_id'', VStr ''101''), (''route_code'', VStr ''A10'')])"
    by (simp add: match_route_def py_bind_def route_A10_def arrival_A10_def stop_101_def)
  have code: "py_getitem arrival_A10 ''route_code'' = Inr (VStr ''A10'')"
    by (simp add: arrival_A10_def)
  have fails: "route_bus_location failing_env (py_str failing_env (VStr ''A10'')) 4
      = (Inl (OtherException ''timeout''), 5)"
    by (simp add: failing_env_def sample_env_def timeout_def)
  have scene: "oasa_initialised failing_env \<and> py_getitem stop_101 ''StopID'' = Inr (VStr ''101'')
      \<and> py_str failing_env (VStr ''101'') = ''101''
      \<and> stop_arrivals failing_env ''101'' 2 = (Inr (VList [arrival_A10]), 3)"
    by (simp add: failing_env_def sample_env_def stop_101_def py_str_def)
  have cycle: "time_time failing_env 0 = (0, 1)
      \<and> get_stops failing_env DEFAULT_LOCATION_lat DEFAULT_LOCATION_lng 1
          = (Inr (VList [stop_101]), 2)"
    by (simp add: failing_env_def sample_env_def get_stops_def get_stops_try_def py_bind_def)
  show ?thesis
    using location_failure_is_isolated [OF routes listing no_other matches code fails,
        of "([], 0)" "[]" "([], 0)" 2 "[]" "VStr ''101''" 0 0 1 previous_cache]
      scene cycle
    by (simp add: previous_cache_def)
qed

section \<open>The join on the scenario of the specification\<close>

text \<open>
  Claim C3. Discovery has yielded one stop with \<open>StopID\<close> "101" and description
  "Main St"; the arrivals of that stop are one arrival with \<open>route_code\<close> "A10" and
  \<open>btime2\<close> "5"; the route listing of the stop is one route with \<open>RouteCode\<close> "A10";
  the vehicle-location call for "A10" returns one position with \<open>CS_LAT\<close> "38.01",
  \<open>CS_LNG\<close> "23.70" and \<open>VEH_NO\<close> "V1", and \<open>float\<close> reads the two strings as
  38.01 and 23.70. Then the join returns exactly one sighting, with no error counted:
  its \<open>route_code\<close> is "A10", its \<open>stop_id\<close> "101", its \<open>time_left\<close> "5", its
  \<open>lat\<close> 38.01, its \<open>lng\<close> 23.70 and its \<open>vehicle_id\<close> "V1".
\<close>

theorem join_scenario:
  assumes init: "oasa_initialised env"
    and stop: "map_of stop ''StopID'' = Some (VStr ''101'')"
      "map_of stop ''StopDescr'' = Some (VStr ''Main St'')"
    and arrivals: "stop_arrivals env ''101'' w = (Inr (VList [VDict arrival]), w1)"
    and arrival: "map_of arrival ''route_code'' = Some (VStr ''A10'')"
      "map_of arrival ''btime2'' = Some (VStr ''5'')"
    and routes: "oasa_get_web_routes_for_stop env ''101'' w1 = (Inr (VList [VDict route]), w2)"
    and route: "map_of route ''RouteCode'' = Some (VStr ''A10'')"
    and location: "route_bus_location env ''A10'' w2 = (Inr (VList [VDict position]), w3)"
    and position: "map_of position ''CS_LAT'' = Some (VStr ''38.01'')"
      "map_of position ''CS_LNG'' = Some (VStr ''23.70'')"
      "map_of position ''VEH_NO'' = Some (VStr ''V1'')"
    and floats: "py_float env (VStr ''38.01'') = Inr 38.01"
      "py_float env (VStr ''23.70'') = Inr 23.70"
    and clock: "strftime_now env w3 = (now, w4)"
  shows "\<exists>bus. get_bus_data env (VList [VDict stop]) w = (Inr [VDict bus], w4)
     \<and> get_bus_data_run env (VList [VDict stop]) w = (None, ([VDict bus], 0), w4)
     \<and> map_of bus ''route_code'' = Some (VStr ''A10'')
     \<and> map_of bus ''stop_id'' = Some (VStr ''101'')
     \<and> map_of bus ''stop_name'' = Some (VStr ''Main St'')
     \<and> map_of bus ''time_left'' = Some (VStr ''5'')
     \<and> map_of bus ''lat'' = Some (VFloat 38.01)
     \<and> map_of bus ''lng'' = Some (VFloat 23.70)
     \<and> map_of bus ''vehicle_id'' = Some (VStr ''V1'')
     \<and> map_of bus ''last_update'' = Some (VStr now)"
proof -
  define info where "info =
     AList.update ''route_code'' (VStr ''A10'')
       (AList.update ''stop_id'' (VStr ''101'')
       (AList.update ''stop_name'' (VStr ''Main St'')
       (AList.update ''time_left'' (VStr ''5'') route)))"
  define bus where "bus =
     AList.update ''last_update'' (VStr now)
       (AList.update ''vehicle_id'' (VStr ''V1'')
       (AList.update ''lng'' (VFloat 23.70)
       (AList.update ''lat'' (VFloat 38.01) info)))"
  have matched: "match_route (VDict stop) (VDict arrival) (VDict route) = Inr (Some info)"
    using stop arrival route by (simp add: match_route_def py_bind_def info_def)
  have pos: "bus_position env (VList [VDict position]) = Inr (Some (38.01, 23.70, VStr ''V1''))"
    using position floats by (simp add: bus_position_def py_bind_def)
  have located: "locate_bus env (VDict arrival) info w2 = (Inr (Some bus), w4)"
    using arrival location pos clock by (simp add: locate_bus_def py_str_def bus_def)
  have one: "process_route env (VDict stop) (VDict arrival) (VDict route) ([], 0) w2
      = (None, ([VDict bus], 0), w4)"
    using matched located by (simp add: process_route_def)
  have arr: "process_arrival env (VDict stop) ''101'' (VDict arrival) ([], 0) w1
      = (None, ([VDict bus], 0), w4)"
    using routes one by (simp add: process_arrival_def py_str_def)
  have run: "get_bus_data_run env (VList [VDict stop]) w = (None, ([VDict bus], 0), w4)"
    using init stop arrivals arr by (simp add: get_bus_data_run_def process_stop_def py_str_def)
  then have join: "get_bus_data env (VList [VDict stop]) w = (Inr [VDict bus], w4)"
    by (simp add: get_bus_data_def)
  have "map_of bus ''route_code'' = Some (VStr ''A10'')"
    "map_of bus ''stop_id'' = Some (VStr ''101'')"
    "map_of bus ''stop_name'' = Some (VStr ''Main St'')"
    "map_of bus ''time_left'' = Some (VStr ''5'')"
    "map_of bus ''lat'' = Some (VFloat 38.01)"
    "map_of bus ''lng'' = Some (VFloat 23.70)"
    "map_of bus ''vehicle_id'' = Some (VStr ''V1'')"
    "map_of bus ''last_update'' = Some (VStr now)"
    by (simp_all add: bus_def info_def update_conv')
  with run join show ?thesis by blast
qed

theorem join_scenario_witness:
  "get_bus_data scenario_env (VList [stop_101]) 0 = (Inr [sighting_A10], 4)
   \<and> get_bus_data_run scenario_env (VList [stop_101]) 0 = (None, ([sighting_A10], 0), 4)"
proof -
  have init: "oasa_initialised scenario_env"
    by (simp add: scenario_env_def sample_env_def)
  have arrivals: "stop_arrivals scenario_env ''101'' 0
      = (Inr (VList [VDict [(''route_code'', VStr ''A10''), (''btime2'', VStr ''5'')]]), 1)"
    by (simp add: scenario_env_def sample_env_def arrival_A10_def)
  have routes: "oasa_get_web_routes_for_stop scenario_env ''101'' 1
      = (Inr (VList [VDict [(''RouteCode'', VStr ''A10''), (''LineID'', VStr ''10'')]]), 2)"
    by (simp add: scenario_env_def sample_env_def route_A10_def)
  have location: "route_bus_location scenario_env ''A10'' 2
      = (Inr (VList [VDict [(''CS_LAT'', VStr ''38.01''), (''CS_LNG'', VStr ''23.70''),
                            (''VEH_NO'', VStr ''V1'')]]), 3)"
    by (simp add: scenario_env_def sample_env_def position_V1_def)
  have floats: "py_float scenario_env (VStr ''38.01'') = Inr 38.01"
    "py_float scenario_env (VStr ''23.70'') = Inr 23.70"
    by (simp_all add: scenario_env_def sample_env_def sample_float_def)
  have clock: "strftime_now scenario_env 3 = (''12:00:00'', 4)"
    by (simp add: scenario_env_def sample_env_def)
  have "\<exists>bus. get_bus_data scenario_env
          (VList [VDict [(''StopID'', VStr ''101''), (''StopDescr'', VStr ''Main St'')]]) 0
            = (Inr [VDict bus], 4)
     \<and> get_bus_data_run scenario_env
          (VList [VDict [(''StopID'', VStr ''101''), (''StopDescr'', VStr ''Main St'')]]) 0
            = (None, ([VDict bus], 0), 4)
     \<and> map_of bus ''route_code'' = Some (VStr ''A10'')
     \<and> map_of bus ''stop_id'' = Some (VStr ''101'')
     \<and> map_of bus ''stop_name'' = Some (VStr ''Main St'')
     \<and> map_of bus ''time_left'' = Some (VStr ''5'')
     \<and> map_of bus ''lat'' = Some (VFloat 38.01)
     \<and> map_of bus ''lng'' = Some (VFloat 23.70)
     \<and> map_of bus ''vehicle_id'' = Some (VStr ''V1'')
     \<and> map_of bus ''last_update'' = Some (VStr ''12:00:00'')"
    by (rule join_scenario [OF init _ _ arrivals _ _ routes _ location _ _ _ floats clock]) simp_all
  moreover have "get_bus_data_run scenario_env (VList [stop_101]) 0
      = (None, ([sighting_A10], 0), 4)"
    by (simp add: scenario_env_def sighting_A10_def run_defs)
  ultimately show ?thesis
    by (auto simp: get_bus_data_def stop_101_def)
qed

section \<open>What a reader can find in the cache\<close>

lemma discovery_and_join_has_len:
  assumes "discovery_and_join env w0 = (Inr (found, joined), w2)"
  shows "\<exists>n. py_len found = Inr n"
proof -
  from assms obtain w1 where
    "get_stops env DEFAULT_LOCATION_lat DEFAULT_LOCATION_lng w0 = (Inr found, w1)"
    by (auto simp: discovery_and_join_def split: prod.splits sum.splits)
  then show ?thesis by (rule get_stops_has_len)
qed

lemma update_cache_stores_last:
  "last (update_cache_stores env c w) = fst (snd (update_cache_try env c w))"
  by (auto simp: update_cache_stores_def update_cache_try_def Let_def
      split: prod.splits sum.splits)

text \<open>
  Claim C1, as stated, fails: the three fields are assigned by three separate stores
  (lines 149 to 151) and app.py takes no lock and swaps no reference. On the first turn
  of the loop, after the store of line 149 the cache holds the stops of the new cycle
  together with the buses it held before; the buses of the new cycle are stored next.
\<close>

theorem torn_publish_counterexample:
  "stops initial_cache = VList []
   \<and> buses initial_cache = []
   \<and> stops (update_cache_stores scenario_env initial_cache 0 ! 1) = VList [stop_101]
   \<and> buses (update_cache_stores scenario_env initial_cache 0 ! 1) = []
   \<and> stops (fst (update_cache_cycle scenario_env initial_cache 0)) = VList [stop_101]
   \<and> buses (fst (update_cache_cycle scenario_env initial_cache 0)) = [sighting_A10]"
  by (simp add: update_cache_stores_def update_cache_cycle_def update_cache_try_def
      discovery_and_join_def get_stops_def get_stops_try_def initial_cache_def
      bump_total_def bump_successful_def Let_def scenario_env_def sighting_A10_def run_defs)

text \<open>
  Claim C1, amended. When discovery and the join return, the cache at the end of the
  turn holds the stops, the buses and the time of that one cycle. The replacement is
  store by store, not atomic: after the store of \<open>stops\<close> the cache holds the new
  stops with the old buses, and after the store of \<open>buses\<close> the handler
  \<open>get_buses_api\<close> answers the new buses with the old \<open>last_update\<close>. In every cache
  of the turn the stops and the buses are both old, or the stops new and the buses
  old, or both new.
\<close>

theorem publish_is_store_by_store:
  assumes "time_time env w = (t0, w0)"
    and "discovery_and_join env w0 = (Inr (new_stops, new_buses), w2)"
    and "time_time env w2 = (t_update, w3)"
  shows "last (update_cache_stores env c w) = fst (update_cache_cycle env c w)
     \<and> stops (fst (update_cache_cycle env c w)) = new_stops
     \<and> buses (fst (update_cache_cycle env c w)) = new_buses
     \<and> last_update (fst (update_cache_cycle env c w)) = t_update
     \<and> length (update_cache_stores env c w) = 6
     \<and> stops (update_cache_stores env c w ! 1) = new_stops
     \<and> buses (update_cache_stores env c w ! 1) = buses c
     \<and> get_buses_api (update_cache_stores env c w ! 2) = (new_buses, last_update c)
     \<and> (\<forall>s\<in>set (update_cache_stores env c w).
           stops s = stops c \<and> buses s = buses c
           \<or> stops s = new_stops \<and> buses s = buses c
           \<or> stops s = new_stops \<and> buses s = new_buses)"
proof -
  obtain n where len: "py_len new_stops = Inr n"
    using discovery_and_join_has_len [OF assms(2)] by blast
  obtain t_uptime w4 where e: "time_time env w3 = (t_uptime, w4)" by (cases "time_time env w3")
  obtain t_end w5 where f: "time_time env w4 = (t_end, w5)" by (cases "time_time env w4")
  have stores: "update_cache_stores env c w =
      [bump_total c,
       (bump_total c)\<lparr>stops := new_stops\<rparr>,
       (bump_total c)\<lparr>stops := new_stops, buses := new_buses\<rparr>,
       (bump_total c)\<lparr>stops := new_stops, buses := new_buses, last_update := t_update\<rparr>,
       publish env c new_stops new_buses t_update t_uptime
         \<lparr>stats := (stats (publish env c new_stops new_buses t_update t_uptime))
             \<lparr>uptime := uptime (stats c)\<rparr>\<rparr>,
       publish env c new_stops new_buses t_update t_uptime]"
    using assms e
    by (simp add: update_cache_stores_def Let_def publish_def bump_total_def bump_successful_def)
  have cycle: "fst (update_cache_cycle env c w) = publish env c new_stops new_buses t_update t_uptime"
    using assms e f len
    by (simp add: update_cache_cycle_def update_cache_try_def Let_def publish_def bump_total_def
        bump_successful_def)
  show ?thesis
    unfolding stores cycle
    by (simp add: publish_def bump_total_def get_buses_api_def)
qed

theorem publish_is_store_by_store_witness:
  "last (update_cache_stores scenario_env previous_cache 0)
     = fst (update_cache_cycle scenario_env previous_cache 0)
   \<and> stops (fst (update_cache_cycle scenario_env previous_cache 0)) = VList [stop_101]
   \<and> buses (fst (update_cache_cycle scenario_env previous_cache 0)) = [sighting_A10]
   \<and> last_update (fst (update_cache_cycle scenario_env previous_cache 0)) = 6
   \<and> buses (update_cache_stores scenario_env previous_cache 0 ! 1) = []
   \<and> get_buses_api (update_cache_stores scenario_env previous_cache 0 ! 2)
       = ([sighting_A10], 5)"
proof -
  have a: "time_time scenario_env 0 = (0, 1)"
    by (simp add: scenario_env_def sample_env_def)
  have b: "discovery_and_join scenario_env 1 = (Inr (VList [stop_101], [sighting_A10]), 6)"
    by (simp add: discovery_and_join_def get_stops_def get_stops_try_def scenario_env_def
        sighting_A10_def run_defs)
  have c: "time_time scenario_env 6 = (6, 7)"
    by (simp add: scenario_env_def sample_env_def)
  show ?thesis
    using publish_is_store_by_store [OF a b c, of previous_cache]
    by (simp add: previous_cache_def)
qed

end
